theory Spec2Isabelle
  imports Complex_Main "HOL-Library.Word"
begin

section \<open>JavaScript strings\<close>

text \<open>
  A JavaScript string is a sequence of UTF-16 code units; the regular expressions of the
  source carry no \<^verbatim>\<open>u\<close> flag, so they too work on code units. An emoji outside the
  basic plane is two code units (a surrogate pair).
\<close>

type_synonym code_unit = "16 word"
type_synonym jstring = "code_unit list"

text \<open>An ASCII literal of the source.\<close>

definition J :: "string \<Rightarrow> jstring" where
  "J s = map of_char s"

text \<open>
  The white space of ECMAScript (WhiteSpace and LineTerminator): what \<^verbatim>\<open>\s\<close> matches
  and what \<^verbatim>\<open>trim()\<close> removes.
\<close>

definition is_space :: "code_unit \<Rightarrow> bool" where
  "is_space c =
     (c = 0x09 \<or> c = 0x0A \<or> c = 0x0B \<or> c = 0x0C \<or> c = 0x0D \<or> c = 0x20 \<or> c = 0xA0 \<or>
      c = 0x1680 \<or> (0x2000 \<le> c \<and> c \<le> 0x200A) \<or> c = 0x2028 \<or> c = 0x2029 \<or>
      c = 0x202F \<or> c = 0x205F \<or> c = 0x3000 \<or> c = 0xFEFF)"

text \<open>\<^verbatim>\<open>\w\<close> without the \<^verbatim>\<open>u\<close> and \<^verbatim>\<open>i\<close> flags: \<^verbatim>\<open>[A-Za-z0-9_]\<close>.\<close>

definition is_word :: "code_unit \<Rightarrow> bool" where
  "is_word c =
     ((0x41 \<le> c \<and> c \<le> 0x5A) \<or> (0x61 \<le> c \<and> c \<le> 0x7A) \<or> (0x30 \<le> c \<and> c \<le> 0x39) \<or>
      c = 0x5F)"

definition trim :: "jstring \<Rightarrow> jstring" where
  "trim s = rev (dropWhile is_space (rev (dropWhile is_space s)))"

text \<open>\<^verbatim>\<open>s.replace(/\s+/g, " ")\<close>: every maximal run of white space becomes one space.\<close>

function collapse_spaces :: "jstring \<Rightarrow> jstring" where
  "collapse_spaces [] = []"
| "collapse_spaces (c # cs) =
     (if is_space c then 0x20 # collapse_spaces (dropWhile is_space cs)
      else c # collapse_spaces cs)"
  by pat_completeness auto
termination
  by (relation "measure length") (auto simp: length_dropWhile_le le_imp_less_Suc)

text \<open>\<^verbatim>\<open>s.startsWith(p)\<close> and \<^verbatim>\<open>s.includes(p)\<close>.\<close>

fun starts_with :: "jstring \<Rightarrow> jstring \<Rightarrow> bool" where
  "starts_with [] s = True"
| "starts_with (p # ps) [] = False"
| "starts_with (p # ps) (c # cs) = (p = c \<and> starts_with ps cs)"

fun js_includes :: "jstring \<Rightarrow> jstring \<Rightarrow> bool" where
  "js_includes [] p = starts_with p []"
| "js_includes (c # cs) p = (starts_with p (c # cs) \<or> js_includes cs p)"

text \<open>The decimal form of a natural number, as a template literal prints an integer.\<close>

fun show_nat :: "nat \<Rightarrow> jstring" where
  "show_nat n =
     (if n < 10 then [of_nat (48 + n)]
      else show_nat (n div 10) @ [of_nat (48 + n mod 10)])"

declare show_nat.simps [simp del]

text \<open>
  \<^verbatim>\<open>toLowerCase()\<close> on the letters A to Z; the source applies it to two ASCII constants
  only.
\<close>

definition toLowerCase :: "jstring \<Rightarrow> jstring" where
  "toLowerCase s = map (\<lambda>c. if 0x41 \<le> c \<and> c \<le> 0x5A then c + 0x20 else c) s"

section \<open>Thrown values and JSON\<close>

text \<open>
  What a \<^verbatim>\<open>throw\<close> carries: an instance of \<^verbatim>\<open>Error\<close> (or of a subclass) with its
  message, or any other value. A computation that may throw returns \<open>thrown + 'a\<close>.
\<close>

datatype thrown = Error jstring | NonError

datatype json =
    JUndefined
  | JNull
  | JBool bool
  | JNum real
  | JStr jstring
  | JArr "json list"
  | JObj "(jstring \<times> json) list"

text \<open>Property access on an object: \<^verbatim>\<open>undefined\<close> for a key the object does not have.\<close>

definition get_field :: "(jstring \<times> json) list \<Rightarrow> jstring \<Rightarrow> json" where
  "get_field fs k = (case map_of fs k of None \<Rightarrow> JUndefined | Some v \<Rightarrow> v)"

section \<open>What the program takes from its environment\<close>

datatype issue_code = invalid_type | too_small | too_big | invalid_enum_value

type_synonym zod_issue = "jstring list \<times> issue_code"

record TranscriptSegment =
  seg_text :: jstring
  seg_duration :: real
  seg_offset :: real
  seg_lang :: jstring

record TranscriptResponse =
  tr_lang :: jstring
  tr_availableLangs :: "jstring list"
  tr_content :: "TranscriptSegment list"

record TypefullyDraftResponse =
  dr_id :: jstring
  dr_content :: jstring
  dr_status :: jstring
  dr_created_at :: jstring
  dr_scheduled_at :: "jstring option"
  dr_share_url :: "jstring option"

text \<open>
  The fields of an axios error that the services read: \<^verbatim>\<open>error.message\<close>,
  \<^verbatim>\<open>error.response?.status\<close>, \<^verbatim>\<open>error.response?.data?.message\<close> and
  \<^verbatim>\<open>error.response?.data?.error\<close> (\<open>None\<close> where the chain gives \<^verbatim>\<open>undefined\<close>).
\<close>

record AxiosError =
  ae_message :: jstring
  ae_status :: "nat option"
  ae_data_message :: "jstring option"
  ae_data_error :: "jstring option"

datatype 'a axios_outcome = Response 'a | AxiosFailure AxiosError | OtherFailure thrown

text \<open>The payload that \<^verbatim>\<open>createDraft\<close> posts.\<close>

record draft_payload =
  p_content :: jstring
  p_threadify :: "bool option"
  p_share :: "bool option"
  p_schedule_date :: "jstring option"
  p_auto_retweet_enabled :: "bool option"
  p_auto_plug_enabled :: "bool option"

text \<open>The two request schemas for which the module registers a handler.\<close>

datatype request_schema = ListToolsRequestSchema | CallToolRequestSchema

text \<open>
  Everything that is outside the source: the process environment as it is after
  \<^verbatim>\<open>dotenv.config\<close>, the two HTTP requests, the library functions whose text the source
  does not fix (the message of a \<^verbatim>\<open>ZodError\<close>, the printing of a number,
  \<^verbatim>\<open>Date.toLocaleString\<close>), and the outcome of each call that the module makes into
  Node.js and the protocol library while it starts: \<^verbatim>\<open>fileURLToPath(import.meta.url)\<close>,
  \<^verbatim>\<open>new Server(...)\<close>, the two calls of \<^verbatim>\<open>server.setRequestHandler\<close>,
  \<^verbatim>\<open>new StdioServerTransport()\<close> and \<^verbatim>\<open>server.connect(transport)\<close>. The last field is
  what the protocol layer does with an exception that leaves a request handler: it keeps
  serving (\<open>None\<close>) or ends the process with a status.
\<close>

record world =
  env :: "jstring \<Rightarrow> jstring option"
  http_get_transcript :: "jstring \<Rightarrow> jstring \<Rightarrow> TranscriptResponse axios_outcome"
  http_post_draft :: "draft_payload \<Rightarrow> jstring \<Rightarrow> TypefullyDraftResponse axios_outcome"
  connect :: "thrown + unit"
  zod_message :: "zod_issue list \<Rightarrow> jstring"
  number_toString :: "real \<Rightarrow> jstring"
  date_toLocaleString :: "jstring \<Rightarrow> jstring"
  fileURLToPath :: "thrown + jstring"
  new_Server :: "thrown + unit"
  setRequestHandler :: "request_schema \<Rightarrow> thrown + unit"
  new_StdioServerTransport :: "thrown + unit"
  handler_exception :: "thrown \<Rightarrow> nat option"

section \<open>Argument schemas\<close>

text \<open>
  Modelled from the spec: the zod library, whose parser the schemas of the source are
  written in, is not part of the source. Its combinators are given here as the spec
  (section 4.2, step 2) words the validation: a missing required field, a value of the
  wrong primitive type, a number outside its declared range and a string outside its
  declared enumeration are validation failures; a field the schema does not declare is
  ignored. A parser returns the issues it found, or the typed value.
\<close>

type_synonym 'a zod_type = "json \<Rightarrow> issue_code list + 'a"

definition z_string :: "jstring zod_type" where
  "z_string j = (case j of JStr s \<Rightarrow> Inr s | _ \<Rightarrow> Inl [invalid_type])"

definition z_number :: "real zod_type" where
  "z_number j = (case j of JNum r \<Rightarrow> Inr r | _ \<Rightarrow> Inl [invalid_type])"

definition z_boolean :: "bool zod_type" where
  "z_boolean j = (case j of JBool b \<Rightarrow> Inr b | _ \<Rightarrow> Inl [invalid_type])"

text \<open>\<^verbatim>\<open>.min(n)\<close> on a string schema: at least \<open>n\<close> code units.\<close>

definition z_min_length :: "nat \<Rightarrow> jstring zod_type \<Rightarrow> jstring zod_type" where
  "z_min_length n p j =
     (case p j of Inl cs \<Rightarrow> Inl cs
      | Inr s \<Rightarrow> if length s < n then Inl [too_small] else Inr s)"

text \<open>\<^verbatim>\<open>.min(m)\<close> and \<^verbatim>\<open>.max(m)\<close> on a number schema (both bounds inclusive).\<close>

definition z_min :: "real \<Rightarrow> real zod_type \<Rightarrow> real zod_type" where
  "z_min m p j =
     (case p j of Inl cs \<Rightarrow> Inl cs
      | Inr r \<Rightarrow> if r < m then Inl [too_small] else Inr r)"

definition z_max :: "real \<Rightarrow> real zod_type \<Rightarrow> real zod_type" where
  "z_max m p j =
     (case p j of Inl cs \<Rightarrow> Inl cs
      | Inr r \<Rightarrow> if m < r then Inl [too_big] else Inr r)"

definition z_enum :: "(jstring \<times> 'a) list \<Rightarrow> 'a zod_type" where
  "z_enum vals j =
     (case j of
        JStr s \<Rightarrow> (case map_of vals s of None \<Rightarrow> Inl [invalid_enum_value] | Some v \<Rightarrow> Inr v)
      | _ \<Rightarrow> Inl [invalid_type])"

definition z_optional :: "'a zod_type \<Rightarrow> 'a option zod_type" where
  "z_optional p j =
     (case j of
        JUndefined \<Rightarrow> Inr None
      | _ \<Rightarrow> (case p j of Inl cs \<Rightarrow> Inl cs | Inr v \<Rightarrow> Inr (Some v)))"

text \<open>
  One declared field of an object schema, read from the object by its key; its issues
  carry the key as their path.
\<close>

definition z_field :: "(jstring \<times> json) list \<Rightarrow> string \<Rightarrow> 'a zod_type \<Rightarrow> zod_issue list + 'a" where
  "z_field fs k p =
     (case p (get_field fs (J k)) of
        Inl cs \<Rightarrow> Inl (map (\<lambda>c. ([J k], c)) cs)
      | Inr v \<Rightarrow> Inr v)"

text \<open>The fields of an object schema are all parsed, and their issues collected in order.\<close>

definition z_and :: "zod_issue list + ('a \<Rightarrow> 'b) \<Rightarrow> zod_issue list + 'a \<Rightarrow> zod_issue list + 'b" where
  "z_and f x =
     (case f of
        Inl a \<Rightarrow> (case x of Inl b \<Rightarrow> Inl (a @ b) | Inr _ \<Rightarrow> Inl a)
      | Inr g \<Rightarrow> (case x of Inl b \<Rightarrow> Inl b | Inr v \<Rightarrow> Inr (g v)))"

text \<open>\<^verbatim>\<open>schema.parse(args)\<close>: the typed value, or a thrown \<^verbatim>\<open>ZodError\<close>.\<close>

definition zod_parse :: "world \<Rightarrow> (json \<Rightarrow> zod_issue list + 'a) \<Rightarrow> json \<Rightarrow> thrown + 'a" where
  "zod_parse w schema args =
     (case schema args of Inl issues \<Rightarrow> Inl (Error (zod_message w issues)) | Inr v \<Rightarrow> Inr v)"

datatype tweet_style = conversational | informative | engaging | professional

datatype tweet_format = thread | single

record youtube_args =
  a_videoUrl :: jstring

record generate_args =
  a_transcript :: jstring
  a_prompt :: jstring
  a_maxTweets :: "real option"
  a_style :: "tweet_style option"
  a_format :: "tweet_format option"

record draft_args =
  a_content :: jstring
  a_threadify :: "bool option"
  a_scheduleDate :: "jstring option"
  a_share :: "bool option"

definition style_values :: "(jstring \<times> tweet_style) list" where
  "style_values =
     [(J ''conversational'', conversational), (J ''informative'', informative),
      (J ''engaging'', engaging), (J ''professional'', professional)]"

definition format_values :: "(jstring \<times> tweet_format) list" where
  "format_values = [(J ''thread'', thread), (J ''single'', single)]"

definition YouTubeTranscriptSchema :: "json \<Rightarrow> zod_issue list + youtube_args" where
  "YouTubeTranscriptSchema args =
     (case args of
        JObj fs \<Rightarrow>
          z_and (Inr (\<lambda>v. \<lparr>a_videoUrl = v\<rparr>))
            (z_field fs ''videoUrl'' (z_min_length 1 z_string))
      | _ \<Rightarrow> Inl [([], invalid_type)])"

definition GenerateTweetsSchema :: "json \<Rightarrow> zod_issue list + generate_args" where
  "GenerateTweetsSchema args =
     (case args of
        JObj fs \<Rightarrow>
          z_and (z_and (z_and (z_and (z_and
            (Inr (\<lambda>t p m s f.
               \<lparr>a_transcript = t, a_prompt = p, a_maxTweets = m, a_style = s, a_format = f\<rparr>))
            (z_field fs ''transcript'' (z_min_length 1 z_string)))
            (z_field fs ''prompt'' (z_min_length 1 z_string)))
            (z_field fs ''maxTweets'' (z_optional (z_max 10 (z_min 1 z_number)))))
            (z_field fs ''style'' (z_optional (z_enum style_values))))
            (z_field fs ''format'' (z_optional (z_enum format_values)))
      | _ \<Rightarrow> Inl [([], invalid_type)])"

definition CreateDraftSchema :: "json \<Rightarrow> zod_issue list + draft_args" where
  "CreateDraftSchema args =
     (case args of
        JObj fs \<Rightarrow>
          z_and (z_and (z_and (z_and
            (Inr (\<lambda>c t d s.
               \<lparr>a_content = c, a_threadify = t, a_scheduleDate = d, a_share = s\<rparr>))
            (z_field fs ''content'' z_string))
            (z_field fs ''threadify'' (z_optional z_boolean)))
            (z_field fs ''scheduleDate'' (z_optional z_string)))
            (z_field fs ''share'' (z_optional z_boolean))
      | _ \<Rightarrow> Inl [([], invalid_type)])"

section \<open>TweetGenerationService\<close>

record TweetGenerationOptions =
  o_maxTweets :: "real option"
  o_includeCallToAction :: "bool option"
  o_style :: "tweet_style option"
  o_includeEmojis :: "bool option"
  o_format :: "tweet_format option"

record TweetGenerationContext =
  c_transcript :: jstring
  c_prompt :: jstring
  c_format :: tweet_format
  c_style :: tweet_style
  c_maxTweets :: "real option"
  c_includeEmojis :: bool
  c_includeCallToAction :: bool
  c_systemPrompt :: jstring
  c_instructions :: jstring

text \<open>The string that a style or a format is in the source.\<close>

fun style_name :: "tweet_style \<Rightarrow> jstring" where
  "style_name conversational = J ''conversational''"
| "style_name informative = J ''informative''"
| "style_name engaging = J ''engaging''"
| "style_name professional = J ''professional''"

fun styleGuidelines :: "tweet_style \<Rightarrow> jstring" where
  "styleGuidelines engaging = J ''Create tweets that are exciting, thought-provoking, and designed to spark discussion. Use dynamic language and compelling hooks.''"
| "styleGuidelines professional = J ''Create tweets that are authoritative, informative, and suitable for a business audience. Maintain a polished tone while being accessible.''"
| "styleGuidelines conversational = J ''Create tweets that feel like natural conversation starters. Use casual language and relatable scenarios.''"
| "styleGuidelines informative = J ''Create tweets that focus on educating and sharing valuable insights. Prioritize clarity and usefulness.''"

text \<open>
  \<^verbatim>\<open>generatePromptAndInstructions\<close>; its first argument is the printing of a number
  in a template literal.
\<close>

definition generatePromptAndInstructions ::
  "(real \<Rightarrow> jstring) \<Rightarrow> tweet_format \<Rightarrow> tweet_style \<Rightarrow> real \<Rightarrow> jstring \<Rightarrow> bool \<Rightarrow> bool \<Rightarrow>
     jstring \<times> jstring" where
  "generatePromptAndInstructions num format style maxTweets userPrompt includeEmojis
       includeCallToAction =
     (let basePrompt =
            J ''You are an expert social media content creator specializing in creating '' @
            style_name style @ J '' tweets that start conversations and drive engagement.'';
          formatGuidelines =
            (if format = single
             then J ''You will create ONE single tweet that must stay within 280 characters including all text, emojis, and spacing.''
             else J ''You will create a tweet thread. Each tweet in the thread must stay within 280 characters.'');
          emojiGuideline =
            (if includeEmojis
             then J ''Include relevant emojis to enhance engagement and visual appeal, but use them strategically.''
             else J ''Do not include any emojis in the tweets.'');
          ctaGuideline =
            (if includeCallToAction
             then J ''Include calls-to-action that encourage replies, engagement, and discussion.''
             else J ''Focus on delivering value without explicit calls-to-action.'');
          systemPrompt =
            basePrompt @ [0xA, 0xA] @ J ''STYLE: '' @ styleGuidelines style @
            [0xA, 0xA] @ J ''FORMAT: '' @ formatGuidelines @
            [0xA, 0xA] @ J ''EMOJIS: '' @ emojiGuideline @
            [0xA, 0xA] @ J ''ENGAGEMENT: '' @ ctaGuideline @
            [0xA, 0xA] @ J ''IMPORTANT: Every tweet must be under 280 characters. Count characters carefully including spaces and emojis.'';
          formatInstructions =
            (if format = single
             then J ''Create ONE compelling tweet that captures the essence of the content. The tweet must:'' @ [0xA] @
                  J ''- Stay within 280 characters (this is critical)'' @ [0xA] @
                  J ''- Be self-contained and impactful'' @ [0xA] @
                  J ''- Include the most important insight or takeaway'' @ [0xA] @
                  J ''- End with a question or statement that encourages engagement''
             else J ''Create a tweet thread with '' @ num maxTweets @
                  J '' tweets maximum. The thread should:'' @ [0xA] @
                  J ''- Start with an engaging hook tweet that introduces the topic'' @ [0xA] @
                  J ''- Break down key insights across subsequent tweets'' @ [0xA] @
                  J ''- End with a call-to-action that encourages discussion'' @ [0xA] @
                  J ''- Each tweet must stay within 280 characters'' @ [0xA] @
                  J ''- Use (1/n), (2/n) format to indicate thread position'');
          instructions =
            userPrompt @ [0xA, 0xA] @ formatInstructions @ [0xA, 0xA] @
            J ''Base your tweets on the provided transcript content. Extract the most valuable insights and present them in a way that will start conversations and provide value to readers.'' @
            [0xA, 0xA] @
            J ''Remember: Character count is critical. Each tweet MUST be under 280 characters.''
      in (systemPrompt, instructions))"

text \<open>
  \<^verbatim>\<open>cleanTranscript\<close>: the characters that \<^verbatim>\<open>/[^\w\s.,!?-]/g\<close> does not delete are
  the word characters, white space and the five marks.
\<close>

definition kept :: "code_unit \<Rightarrow> bool" where
  "kept c =
     (is_word c \<or> is_space c \<or> c = 0x2E \<or> c = 0x2C \<or> c = 0x21 \<or> c = 0x3F \<or> c = 0x2D)"

definition cleanTranscript :: "jstring \<Rightarrow> jstring" where
  "cleanTranscript transcript = trim (filter kept (collapse_spaces transcript))"

text \<open>A destructuring default: it applies where the option is \<^verbatim>\<open>undefined\<close>.\<close>

definition default_to :: "'a \<Rightarrow> 'a option \<Rightarrow> 'a" where
  "default_to d x = (case x of None \<Rightarrow> d | Some v \<Rightarrow> v)"

definition generateTweetContext ::
  "(real \<Rightarrow> jstring) \<Rightarrow> jstring \<Rightarrow> jstring \<Rightarrow> TweetGenerationOptions \<Rightarrow> TweetGenerationContext" where
  "generateTweetContext num transcript prompt options =
     (let maxTweets = default_to 5 (o_maxTweets options);
          includeCallToAction = default_to True (o_includeCallToAction options);
          style = default_to engaging (o_style options);
          includeEmojis = default_to True (o_includeEmojis options);
          format = default_to thread (o_format options);
          cleaned = cleanTranscript transcript;
          pi = generatePromptAndInstructions num format style maxTweets prompt includeEmojis
                 includeCallToAction
      in \<lparr>c_transcript = cleaned,
          c_prompt = prompt,
          c_format = format,
          c_style = style,
          c_maxTweets = Some (if format = single then 1 else maxTweets),
          c_includeEmojis = includeEmojis,
          c_includeCallToAction = includeCallToAction,
          c_systemPrompt = fst pi,
          c_instructions = snd pi\<rparr>)"

section \<open>YouTubeService\<close>

record YouTubeService =
  yt_apiKey :: jstring

text \<open>
  \<^verbatim>\<open>a || b\<close> on an optional string: \<open>b\<close> where \<open>a\<close> is \<^verbatim>\<open>undefined\<close> or the empty
  string.
\<close>

definition or_else :: "jstring option \<Rightarrow> jstring \<Rightarrow> jstring" where
  "or_else a b = (case a of None \<Rightarrow> b | Some s \<Rightarrow> if s = [] then b else s)"

text \<open>
  The constructor reads the key and only warns (on the error stream) when there is none.
\<close>

definition YouTubeService_new :: "world \<Rightarrow> YouTubeService" where
  "YouTubeService_new w = \<lparr>yt_apiKey = or_else (env w (J ''SUPADATA_API_KEY'')) []\<rparr>"

text \<open>
  \<^verbatim>\<open>extractVideoId\<close>. The first pattern is searched for at every position from the
  left; at a position its three alternatives are tried in order, each followed by the
  longest non-empty run of characters other than \<^verbatim>\<open>& \n ? #\<close>. The second pattern is
  anchored at both ends.
\<close>

definition url_shapes :: "jstring list" where
  "url_shapes = [J ''youtube.com/watch?v='', J ''youtu.be/'', J ''youtube.com/embed/'']"

definition id_stop :: "code_unit \<Rightarrow> bool" where
  "id_stop c = (c = 0x26 \<or> c = 0x0A \<or> c = 0x3F \<or> c = 0x23)"

definition id_run :: "jstring \<Rightarrow> jstring" where
  "id_run s = takeWhile (\<lambda>c. \<not> id_stop c) s"

fun match_shapes :: "jstring list \<Rightarrow> jstring \<Rightarrow> jstring option" where
  "match_shapes [] s = None"
| "match_shapes (p # ps) s =
     (if starts_with p s \<and> id_run (drop (length p) s) \<noteq> []
      then Some (id_run (drop (length p) s))
      else match_shapes ps s)"

fun search_url :: "jstring \<Rightarrow> jstring option" where
  "search_url [] = match_shapes url_shapes []"
| "search_url (c # cs) =
     (case match_shapes url_shapes (c # cs) of
        Some v \<Rightarrow> Some v
      | None \<Rightarrow> search_url cs)"

definition is_id_char :: "code_unit \<Rightarrow> bool" where
  "is_id_char c = (is_word c \<or> c = 0x2D)"

definition match_direct_id :: "jstring \<Rightarrow> jstring option" where
  "match_direct_id s = (if length s = 11 \<and> list_all is_id_char s then Some s else None)"

definition extractVideoId :: "jstring \<Rightarrow> thrown + jstring" where
  "extractVideoId url =
     (case search_url url of
        Some v \<Rightarrow> Inr v
      | None \<Rightarrow>
          (case match_direct_id url of
             Some v \<Rightarrow> Inr v
           | None \<Rightarrow> Inl (Error (J ''Invalid YouTube URL or video ID''))))"

definition getTranscript :: "world \<Rightarrow> YouTubeService \<Rightarrow> jstring \<Rightarrow> thrown + TranscriptResponse" where
  "getTranscript w svc videoId =
     (case http_get_transcript w videoId (yt_apiKey svc) of
        Response d \<Rightarrow> Inr d
      | AxiosFailure e \<Rightarrow>
          Inl (Error (J ''Failed to fetch transcript: '' @
                      or_else (ae_data_message e) (ae_message e)))
      | OtherFailure t \<Rightarrow> Inl t)"

fun join :: "jstring \<Rightarrow> jstring list \<Rightarrow> jstring" where
  "join sep [] = []"
| "join sep [x] = x"
| "join sep (x # y # ys) = x @ sep @ join sep (y # ys)"

definition transcriptToText :: "TranscriptResponse \<Rightarrow> jstring" where
  "transcriptToText transcript =
     trim (collapse_spaces (join (J '' '') (map seg_text (tr_content transcript))))"

section \<open>TypefullyService\<close>

record TypefullyService =
  tf_apiKey :: jstring

text \<open>The constructor throws when the key is absent or empty.\<close>

definition TypefullyService_new :: "world \<Rightarrow> thrown + TypefullyService" where
  "TypefullyService_new w =
     (let apiKey = or_else (env w (J ''TYPEFULLY_API_KEY'')) []
      in if apiKey = []
         then Inl (Error (J ''TYPEFULLY_API_KEY environment variable is required''))
         else Inr \<lparr>tf_apiKey = apiKey\<rparr>)"

record draft_options =
  threadify :: "bool option"
  scheduleDate :: "jstring option"
  share :: "bool option"
  autoRetweetEnabled :: "bool option"
  autoPlugEnabled :: "bool option"

definition createDraft ::
  "world \<Rightarrow> TypefullyService \<Rightarrow> jstring \<Rightarrow> draft_options \<Rightarrow> thrown + TypefullyDraftResponse" where
  "createDraft w svc content options =
     (let payload =
            \<lparr>p_content = content,
             p_threadify = threadify options,
             p_share = share options,
             p_schedule_date =
               (case scheduleDate options of
                  None \<Rightarrow> None
                | Some d \<Rightarrow> if d = [] then None else Some d),
             p_auto_retweet_enabled = autoRetweetEnabled options,
             p_auto_plug_enabled = autoPlugEnabled options\<rparr>
      in case http_post_draft w payload (J ''Bearer '' @ tf_apiKey svc) of
           Response d \<Rightarrow> Inr d
         | AxiosFailure e \<Rightarrow>
             Inl (Error (J ''Typefully API error: '' @
                         (case ae_status e of None \<Rightarrow> J ''undefined'' | Some n \<Rightarrow> show_nat n) @
                         J '' - '' @ or_else (ae_data_error e) (ae_message e)))
         | OtherFailure t \<Rightarrow> Inl t)"

section \<open>The server\<close>

text \<open>
  A tool result: its content blocks (all of type \<^verbatim>\<open>text\<close>) and the \<^verbatim>\<open>isError\<close>
  field, \<open>None\<close> where the returned object has no such field.
\<close>

datatype content_block = TextBlock jstring

record tool_result =
  content :: "content_block list"
  isError :: "bool option"

text \<open>How a caller reads the flag: an absent \<^verbatim>\<open>isError\<close> counts as false.\<close>

definition is_error :: "tool_result \<Rightarrow> bool" where
  "is_error r = (isError r = Some True)"

text \<open>The services that the module creates once, at load time.\<close>

record server =
  youtubeService :: YouTubeService
  typeFullyService :: TypefullyService

text \<open>The names of the tools that the \<^verbatim>\<open>ListTools\<close> handler returns, in its order.\<close>

definition tool_names :: "jstring list" where
  "tool_names =
     [J ''get_youtube_transcript'', J ''generate_tweets_from_transcript'',
      J ''create_typefully_draft'']"

text \<open>The \<^verbatim>\<open>required\<close> list of each tool's \<^verbatim>\<open>inputSchema\<close> in that handler.\<close>

definition required_fields :: "jstring \<Rightarrow> jstring list" where
  "required_fields name =
     (if name = J ''get_youtube_transcript'' then [J ''videoUrl'']
      else if name = J ''generate_tweets_from_transcript'' then [J ''transcript'', J ''prompt'']
      else if name = J ''create_typefully_draft'' then [J ''content'']
      else [])"

text \<open>
  The \<^verbatim>\<open>properties\<close> of each tool's \<^verbatim>\<open>inputSchema\<close> in that handler; they are the
  keys of the tool's zod schema.
\<close>

definition declared_fields :: "jstring \<Rightarrow> jstring list" where
  "declared_fields name =
     (if name = J ''get_youtube_transcript'' then [J ''videoUrl'']
      else if name = J ''generate_tweets_from_transcript''
        then [J ''transcript'', J ''prompt'', J ''maxTweets'', J ''style'', J ''format'']
      else if name = J ''create_typefully_draft''
        then [J ''content'', J ''threadify'', J ''scheduleDate'', J ''share'']
      else [])"

text \<open>
  The calls of service methods that handling one request makes, in order, with their
  arguments.
\<close>

datatype call =
    ExtractVideoId jstring
  | GetTranscript jstring
  | TranscriptToText TranscriptResponse
  | GenerateTweetContext jstring jstring TweetGenerationOptions
  | CreateDraft jstring draft_options

type_synonym handled = "call list \<times> (thrown + tool_result)"

definition get_youtube_transcript_case :: "world \<Rightarrow> server \<Rightarrow> json \<Rightarrow> handled" where
  "get_youtube_transcript_case w srv args =
     (case zod_parse w YouTubeTranscriptSchema args of
        Inl e \<Rightarrow> ([], Inl e)
      | Inr a \<Rightarrow>
          (case extractVideoId (a_videoUrl a) of
             Inl e \<Rightarrow> ([ExtractVideoId (a_videoUrl a)], Inl e)
           | Inr videoId \<Rightarrow>
               (case getTranscript w (youtubeService srv) videoId of
                  Inl e \<Rightarrow> ([ExtractVideoId (a_videoUrl a), GetTranscript videoId], Inl e)
                | Inr transcript \<Rightarrow>
                    ([ExtractVideoId (a_videoUrl a), GetTranscript videoId,
                      TranscriptToText transcript],
                     Inr \<lparr>content =
                            [TextBlock
                              ([0xD83C, 0xDFA5] @ J '' **YouTube Transcript Fetched Successfully!**'' @
                               [0xA, 0xA, 0xD83D, 0xDCFA] @ J '' **Video ID:** '' @ videoId @
                               [0xA, 0xD83C, 0xDF0D] @ J '' **Language:** '' @ tr_lang transcript @
                               [0xA, 0x23F1, 0xFE0F] @ J '' **Total Segments:** '' @
                               show_nat (length (tr_content transcript)) @
                               [0xA, 0xA, 0xD83D, 0xDCDD] @ J '' **Full Transcript:**'' @ [0xA, 0xA] @
                               transcriptToText transcript @
                               [0xA, 0xA, 0xD83D, 0xDCA1] @
                               J '' **Ready to generate content!** You can now use this transcript to:'' @
                               [0xA, 0x2022] @ J '' Generate tweets with '' @ [0x22] @
                               J ''generate_tweets_from_transcript'' @
                               [0x22, 0xA, 0x2022] @ J '' Create social media content'' @
                               [0xA, 0x2022] @ J '' Extract key insights'')],
                          isError = None\<rparr>))))"

definition generate_tweets_from_transcript_case :: "world \<Rightarrow> server \<Rightarrow> json \<Rightarrow> handled" where
  "generate_tweets_from_transcript_case w srv args =
     (case zod_parse w GenerateTweetsSchema args of
        Inl e \<Rightarrow> ([], Inl e)
      | Inr a \<Rightarrow>
          (let options =
                 \<lparr>o_maxTweets = a_maxTweets a,
                  o_includeCallToAction = Some True,
                  o_style = a_style a,
                  o_includeEmojis = Some True,
                  o_format = a_format a\<rparr>;
               context =
                 generateTweetContext (number_toString w) (a_transcript a) (a_prompt a) options;
               formatDescription =
                 (if a_format a = Some single then J ''Single Tweet (280 chars max)''
                  else J ''Tweet Thread'')
           in ([GenerateTweetContext (a_transcript a) (a_prompt a) options],
               Inr \<lparr>content =
                      [TextBlock
                        ([0xD83D, 0xDC26] @ J '' **Tweet Generation Context Prepared**'' @
                         [0xA, 0xA, 0xD83D, 0xDCAD] @ J '' **User Prompt:** '' @ a_prompt a @
                         [0xA, 0xD83C, 0xDFA8] @ J '' **Style:** '' @ style_name (c_style context) @
                         [0xA, 0xD83D, 0xDCCA] @ J '' **Format:** '' @ formatDescription @
                         [0xA, 0xFFFD] @ J '' **Max Tweets:** '' @
                         (case c_maxTweets context of
                            None \<Rightarrow> J ''auto-determined''
                          | Some n \<Rightarrow> if n = 0 then J ''auto-determined'' else number_toString w n) @
                         [0xA, 0xA, 0xD83E, 0xDD16] @ J '' **System Instructions:**'' @ [0xA] @
                         c_systemPrompt context @
                         [0xA, 0xA, 0xFFFD] @ J '' **Generation Guidelines:**'' @ [0xA] @
                         c_instructions context @
                         [0xA, 0xA, 0x2728] @ J '' **Please create the '' @
                         toLowerCase formatDescription @ J '' based on this context!**'')],
                    isError = None\<rparr>)))"

text \<open>
  The case of \<^verbatim>\<open>create_typefully_draft\<close> has a \<^verbatim>\<open>try\<close> of its own around the call of
  \<^verbatim>\<open>createDraft\<close>; its \<^verbatim>\<open>catch\<close> returns a result.
\<close>

definition create_typefully_draft_case :: "world \<Rightarrow> server \<Rightarrow> json \<Rightarrow> handled" where
  "create_typefully_draft_case w srv args =
     (case zod_parse w CreateDraftSchema args of
        Inl e \<Rightarrow> ([], Inl e)
      | Inr a \<Rightarrow>
          (let options =
                 \<lparr>threadify = a_threadify a,
                  scheduleDate = a_scheduleDate a,
                  share = a_share a,
                  autoRetweetEnabled = None,
                  autoPlugEnabled = None\<rparr>
           in ([CreateDraft (a_content a) options],
               (case createDraft w (typeFullyService srv) (a_content a) options of
                  Inr draft \<Rightarrow>
                    Inr \<lparr>content =
                           [TextBlock
                             ([0xD83D, 0xDCE4] @ J '' **Typefully Draft Created!**'' @
                              [0xA, 0xA, 0x2705] @ J '' **Draft ID:** '' @ dr_id draft @
                              [0xA, 0xD83D, 0xDCC5] @ J '' **Created:** '' @
                              date_toLocaleString w (dr_created_at draft) @
                              [0xA, 0xD83D, 0xDCCA] @ J '' **Status:** '' @ dr_status draft @
                              [0xA, 0xD83E, 0xDDF5] @ J '' **Threadified:** '' @
                              (if a_threadify a = Some True then J ''Yes'' else J ''No'') @
                              [0xA, 0xD83D, 0xDD17] @ J '' **Share URL:** '' @
                              or_else (dr_share_url draft) (J ''Not shared'') @ [0xA])],
                         isError = None\<rparr>
                | Inl error \<Rightarrow>
                    Inr \<lparr>content =
                           [TextBlock
                             ([0x274C] @ J '' **Error:** '' @
                              (case error of Error m \<Rightarrow> m | NonError \<Rightarrow> J ''Unknown error''))],
                         isError = None\<rparr>))))"

text \<open>The \<^verbatim>\<open>try\<close> block of the handler: the \<^verbatim>\<open>switch\<close> on the tool name.\<close>

definition tool_switch :: "world \<Rightarrow> server \<Rightarrow> jstring \<Rightarrow> json \<Rightarrow> handled" where
  "tool_switch w srv name args =
     (if name = J ''get_youtube_transcript'' then get_youtube_transcript_case w srv args
      else if name = J ''generate_tweets_from_transcript''
        then generate_tweets_from_transcript_case w srv args
      else if name = J ''create_typefully_draft'' then create_typefully_draft_case w srv args
      else ([], Inl (Error (J ''Unknown tool: '' @ name))))"

text \<open>The \<^verbatim>\<open>catch\<close> of the handler.\<close>

definition replace_control :: "jstring \<Rightarrow> jstring" where
  "replace_control m = map (\<lambda>c. if c = 0x0D \<or> c = 0x0A \<or> c = 0x09 then 0x20 else c) m"

definition sanitizedError :: "thrown \<Rightarrow> jstring" where
  "sanitizedError error =
     (case error of
        Error m \<Rightarrow> trim (replace_control m)
      | NonError \<Rightarrow> J ''Unknown error occurred'')"

definition error_result :: "thrown \<Rightarrow> tool_result" where
  "error_result error =
     \<lparr>content = [TextBlock ([0x274C] @ J '' Error: '' @ sanitizedError error)],
      isError = Some True\<rparr>"

text \<open>
  The handler of \<^verbatim>\<open>CallToolRequestSchema\<close>: what it returns to the protocol layer
  (\<open>Inr\<close>), or the exception that leaves it (\<open>Inl\<close>), with the service calls made.
\<close>

definition callTool :: "world \<Rightarrow> server \<Rightarrow> jstring \<Rightarrow> json \<Rightarrow> handled" where
  "callTool w srv name args =
     (case tool_switch w srv name args of
        (calls, Inr r) \<Rightarrow> (calls, Inr r)
      | (calls, Inl error) \<Rightarrow> (calls, Inr (error_result error)))"

section \<open>Start of the process\<close>

text \<open>
  The top level of the module, statement by statement: the path of the module file,
  the loading of the environment (whose errors are caught and ignored, and whose result
  is \<open>env\<close>), the three services, the server, and the registration of the two request
  handlers. The schemas declared in between only build values. The first statement that
  throws ends the evaluation of the module.
\<close>

definition module_init :: "world \<Rightarrow> thrown + server" where
  "module_init w =
     (case fileURLToPath w of
        Inl e \<Rightarrow> Inl e
      | Inr filename \<Rightarrow>
          (let yt = YouTubeService_new w
           in case TypefullyService_new w of
                Inl e \<Rightarrow> Inl e
              | Inr tf \<Rightarrow>
                  (case new_Server w of
                     Inl e \<Rightarrow> Inl e
                   | Inr s \<Rightarrow>
                       (case setRequestHandler w ListToolsRequestSchema of
                          Inl e \<Rightarrow> Inl e
                        | Inr l \<Rightarrow>
                            (case setRequestHandler w CallToolRequestSchema of
                               Inl e \<Rightarrow> Inl e
                             | Inr c \<Rightarrow>
                                 Inr \<lparr>youtubeService = yt, typeFullyService = tf\<rparr>)))))"

text \<open>\<^verbatim>\<open>main\<close> creates the transport and connects the server to it.\<close>

definition main :: "world \<Rightarrow> thrown + unit" where
  "main w = (case new_StdioServerTransport w of Inl e \<Rightarrow> Inl e | Inr t \<Rightarrow> connect w)"

text \<open>
  An exception at the top level of the module is caught by nothing, and Node.js ends the
  process with exit status 1; the module then never reaches the call of \<^verbatim>\<open>main\<close>. A
  rejection of \<^verbatim>\<open>main()\<close> reaches \<^verbatim>\<open>process.exit(1)\<close> in its \<^verbatim>\<open>catch\<close>.
\<close>

datatype process_state = Serving server | Exited nat

definition start_process :: "world \<Rightarrow> process_state" where
  "start_process w =
     (case module_init w of
        Inl e \<Rightarrow> Exited 1
      | Inr srv \<Rightarrow>
          (case main w of
             Inl e \<Rightarrow> Exited 1
           | Inr u \<Rightarrow> Serving srv))"

definition exit_status :: "process_state \<Rightarrow> nat option" where
  "exit_status st = (case st of Serving srv \<Rightarrow> None | Exited n \<Rightarrow> Some n)"

text \<open>
  The serving process answers tool calls one after the other, each in the environment of
  its time, by the registered handler. The source has no call of \<^verbatim>\<open>process.exit\<close>
  other than the one after \<^verbatim>\<open>main\<close>; an exception that left the handler would be the
  protocol layer's to deal with.
\<close>

fun serve :: "process_state \<Rightarrow> (world \<times> jstring \<times> json) list \<Rightarrow> process_state" where
  "serve st [] = st"
| "serve (Exited n) (c # cs) = Exited n"
| "serve (Serving srv) ((w, name, args) # cs) =
     (case snd (callTool w srv name args) of
        Inr r \<Rightarrow> serve (Serving srv) cs
      | Inl e \<Rightarrow>
          (case handler_exception w e of
             None \<Rightarrow> serve (Serving srv) cs
           | Some n \<Rightarrow> Exited n))"

section \<open>Example environments\<close>

text \<open>Concrete environments, on which the theorems below are evaluated.\<close>

definition example_transcript :: TranscriptResponse where
  "example_transcript =
     \<lparr>tr_lang = J ''en'', tr_availableLangs = [J ''en''],
      tr_content =
        [\<lparr>seg_text = J ''hello'', seg_duration = 2, seg_offset = 0, seg_lang = J ''en''\<rparr>,
         \<lparr>seg_text = J '' world '', seg_duration = 3, seg_offset = 2, seg_lang = J ''en''\<rparr>]\<rparr>"

definition example_draft :: TypefullyDraftResponse where
  "example_draft =
     \<lparr>dr_id = J ''42'', dr_content = J ''hello'', dr_status = J ''draft'',
      dr_created_at = J ''2025-01-01T00:00:00Z'', dr_scheduled_at = None,
      dr_share_url = None\<rparr>"

definition example_world :: world where
  "example_world =
     \<lparr>env = (\<lambda>k. if k = J ''TYPEFULLY_API_KEY'' then Some (J ''secret'') else None),
      http_get_transcript = (\<lambda>videoId key. Response example_transcript),
      http_post_draft = (\<lambda>payload key. Response example_draft),
      connect = Inr (),
      zod_message = (\<lambda>issues. J ''['' @ [0xA] @ J ''  invalid arguments'' @ [0xA] @ J '']''),
      number_toString = (\<lambda>r. show_nat (nat \<lfloor>r\<rfloor>)),
      date_toLocaleString = (\<lambda>d. d),
      fileURLToPath = Inr (J ''/srv/dist/mcp-server.js''),
      new_Server = Inr (),
      setRequestHandler = (\<lambda>schema. Inr ()),
      new_StdioServerTransport = Inr (),
      handler_exception = (\<lambda>e. Some 1)\<rparr>"

definition example_server :: server where
  "example_server =
     \<lparr>youtubeService = \<lparr>yt_apiKey = []\<rparr>, typeFullyService = \<lparr>tf_apiKey = J ''secret''\<rparr>\<rparr>"

text \<open>The draft request is answered with status 401.\<close>

definition rejecting_world :: world where
  "rejecting_world =
     example_world
       \<lparr>http_post_draft := (\<lambda>payload key.
          AxiosFailure
            \<lparr>ae_message = J ''Request failed with status code 401'', ae_status = Some 401,
             ae_data_message = None, ae_data_error = Some (J ''Unauthorized'')\<rparr>)\<rparr>"

text \<open>The draft request fails with a message of two lines.\<close>

definition newline_world :: world where
  "newline_world =
     example_world
       \<lparr>http_post_draft := (\<lambda>payload key.
          OtherFailure (Error (J ''socket hang up'' @ [0xA] @ J ''retry later'')))\<rparr>"

text \<open>No key is set; the transport would connect.\<close>

definition keyless_world :: world where
  "keyless_world = example_world\<lparr>env := (\<lambda>k. None)\<rparr>"

text \<open>The protocol library refuses the registration of a handler.\<close>

definition refusing_world :: world where
  "refusing_world =
     example_world
       \<lparr>setRequestHandler := (\<lambda>schema. Inl (Error (J ''Server does not support tools'')))\<rparr>"

text \<open>A tool name with a tab in it.\<close>

definition tab_name :: jstring where
  "tab_name = J ''my'' @ [0x09] @ J ''tool''"

section \<open>Basic facts\<close>

lemma starts_with_iff: "starts_with p s \<longleftrightarrow> (\<exists>r. s = p @ r)"
  by (induction p s rule: starts_with.induct) auto

lemma starts_with_append [simp]: "starts_with p (p @ r)"
  by (simp add: starts_with_iff)

lemma js_includes_iff: "js_includes s p \<longleftrightarrow> (\<exists>a b. s = a @ p @ b)"
proof (induction s)
  case Nil
  then show ?case by (cases p) auto
next
  case (Cons c cs)
  show ?case
  proof
    assume "js_includes (c # cs) p"
    then consider "starts_with p (c # cs)" | "js_includes cs p" by auto
    then show "\<exists>a b. c # cs = a @ p @ b"
    proof cases
      case 1
      then obtain r where "c # cs = p @ r" by (auto simp: starts_with_iff)
      then have "c # cs = [] @ p @ r" by simp
      then show ?thesis by blast
    next
      case 2
      then obtain a b where "cs = a @ p @ b" using Cons.IH by auto
      then have "c # cs = (c # a) @ p @ b" by simp
      then show ?thesis by blast
    qed
  next
    assume "\<exists>a b. c # cs = a @ p @ b"
    then obtain a b where ab: "c # cs = a @ p @ b" by auto
    show "js_includes (c # cs) p"
    proof (cases a)
      case Nil
      then have "starts_with p (c # cs)" using ab by (auto simp: starts_with_iff)
      then show ?thesis by simp
    next
      case (Cons x a')
      then have "cs = a' @ p @ b" using ab by simp
      then show ?thesis using Cons.IH by auto
    qed
  qed
qed

lemma js_includes_mid: "js_includes (a @ p @ b) p"
  by (auto simp: js_includes_iff)

text \<open>Facts about \<^verbatim>\<open>trim\<close>.\<close>

lemma dropWhile_hd: "xs \<noteq> [] \<Longrightarrow> \<not> P (hd xs) \<Longrightarrow> dropWhile P xs = xs"
  by (cases xs) auto

lemma dropWhile_rev_last: "xs \<noteq> [] \<Longrightarrow> \<not> P (last xs) \<Longrightarrow> dropWhile P (rev xs) = rev xs"
  by (rule dropWhile_hd) (simp_all add: hd_rev)

lemma trim_unchanged:
  assumes "s \<noteq> []" "\<not> is_space (hd s)" "\<not> is_space (last s)"
  shows "trim s = s"
proof -
  have 1: "dropWhile is_space s = s"
    using assms by (simp add: dropWhile_hd)
  have 2: "dropWhile is_space (rev s) = rev s"
    using assms by (simp add: dropWhile_rev_last)
  show ?thesis by (simp add: trim_def 1 2)
qed

lemma trim_keeps_prefix:
  assumes "a \<noteq> []" "\<not> is_space (hd a)" "\<not> is_space (last a)"
  shows "\<exists>r. trim (a @ b) = a @ r"
proof -
  have 1: "dropWhile is_space (a @ b) = a @ b"
    using assms by (cases a) auto
  have 2: "dropWhile is_space (rev a) = rev a"
    using assms by (simp add: dropWhile_rev_last)
  have "dropWhile is_space (rev b @ rev a) =
      (if \<forall>x\<in>set (rev b). is_space x then rev a else dropWhile is_space (rev b) @ rev a)"
    by (simp add: dropWhile_append 2)
  then have "trim (a @ b) =
      (if \<forall>x\<in>set (rev b). is_space x then a else a @ rev (dropWhile is_space (rev b)))"
    by (simp add: trim_def 1)
  then show ?thesis by (metis append_Nil2)
qed

lemma set_trim: "set (trim s) \<subseteq> set s"
proof
  fix x
  assume "x \<in> set (trim s)"
  then have "x \<in> set (dropWhile is_space (rev (dropWhile is_space s)))"
    by (simp add: trim_def)
  then have "x \<in> set (rev (dropWhile is_space s))" by (rule set_dropWhileD)
  then have "x \<in> set (dropWhile is_space s)" by simp
  then show "x \<in> set s" by (rule set_dropWhileD)
qed

lemma trim_trimmed: "trim s = [] \<or> (\<not> is_space (hd (trim s)) \<and> \<not> is_space (last (trim s)))"
proof (cases "trim s = []")
  case True
  then show ?thesis by simp
next
  case False
  define u where "u = dropWhile is_space s"
  define v where "v = dropWhile is_space (rev u)"
  have t: "trim s = rev v" by (simp add: trim_def u_def v_def)
  then have v: "v \<noteq> []" using False by simp
  then have "\<not> is_space (hd v)" unfolding v_def by (rule hd_dropWhile)
  then have l: "\<not> is_space (last (trim s))" using v by (simp add: t last_rev)
  have "rev u = takeWhile is_space (rev u) @ v" by (simp add: v_def)
  then have "last (rev u) = last v" using v by (metis last_appendR)
  moreover have u: "u \<noteq> []" using v by (auto simp: v_def)
  ultimately have "last v = hd u" by (simp add: last_rev)
  moreover have "\<not> is_space (hd u)" using u unfolding u_def by (rule hd_dropWhile)
  ultimately have "\<not> is_space (hd (trim s))" using v by (simp add: t hd_rev)
  then show ?thesis using l by simp
qed

text \<open>The handler returns what its \<^verbatim>\<open>try\<close> block returns, or the result of its \<^verbatim>\<open>catch\<close>.\<close>

lemma callTool_eq:
  "callTool w srv name args =
     (fst (tool_switch w srv name args),
      Inr (case snd (tool_switch w srv name args) of Inl e \<Rightarrow> error_result e | Inr r \<Rightarrow> r))"
  by (auto simp: callTool_def split: prod.splits sum.splits)

lemma isError_error_result [simp]: "isError (error_result e) = Some True"
  by (simp add: error_result_def)

lemma tool_name_distinct:
  "J ''get_youtube_transcript'' \<noteq> J ''generate_tweets_from_transcript''"
  "J ''get_youtube_transcript'' \<noteq> J ''create_typefully_draft''"
  "J ''generate_tweets_from_transcript'' \<noteq> J ''create_typefully_draft''"
  "J ''generate_tweets_from_transcript'' \<noteq> J ''get_youtube_transcript''"
  "J ''create_typefully_draft'' \<noteq> J ''get_youtube_transcript''"
  "J ''create_typefully_draft'' \<noteq> J ''generate_tweets_from_transcript''"
  by (simp_all add: J_def)

text \<open>The definitions that evaluating a call in an example environment unfolds.\<close>

lemmas eval_defs =
  callTool_def tool_switch_def create_typefully_draft_case_def get_youtube_transcript_case_def
  generate_tweets_from_transcript_case_def zod_parse_def
  CreateDraftSchema_def YouTubeTranscriptSchema_def GenerateTweetsSchema_def
  z_and_def z_field_def z_string_def z_optional_def z_boolean_def z_number_def z_min_def z_max_def
  z_min_length_def z_enum_def get_field_def J_def createDraft_def or_else_def
  rejecting_world_def newline_world_def keyless_world_def example_world_def example_server_def
  error_result_def sanitizedError_def replace_control_def trim_def is_space_def

section \<open>Faults and the error flag\<close>

text \<open>
  A fault that leaves the \<^verbatim>\<open>switch\<close> is answered by the \<^verbatim>\<open>catch\<close> of the handler: the
  result has \<^verbatim>\<open>isError\<close> true, and its message has no carriage return, line feed or tab
  and no white space at either end.
\<close>

lemma caught_fault:
  "tool_switch w srv name args = (calls, Inl e) \<Longrightarrow>
   callTool w srv name args =
     (calls, Inr \<lparr>content = [TextBlock ([0x274C] @ J '' Error: '' @ sanitizedError e)],
                 isError = Some True\<rparr>)"
  by (simp add: callTool_def error_result_def)

lemma sanitizedError_clean:
  "list_all (\<lambda>c. c \<noteq> 0x0D \<and> c \<noteq> 0x0A \<and> c \<noteq> 0x09) (sanitizedError e) \<and>
   (sanitizedError e = [] \<or>
    (\<not> is_space (hd (sanitizedError e)) \<and> \<not> is_space (last (sanitizedError e))))"
proof (cases e)
  case (Error m)
  have "set (trim (replace_control m)) \<subseteq> set (replace_control m)" by (rule set_trim)
  moreover have "list_all (\<lambda>c. c \<noteq> 0x0D \<and> c \<noteq> 0x0A \<and> c \<noteq> 0x09) (replace_control m)"
    by (induction m) (simp_all add: replace_control_def)
  ultimately have "list_all (\<lambda>c. c \<noteq> 0x0D \<and> c \<noteq> 0x0A \<and> c \<noteq> 0x09) (trim (replace_control m))"
    by (auto simp: list_all_iff)
  then show ?thesis using Error trim_trimmed [of "replace_control m"]
    by (simp add: sanitizedError_def)
next
  case NonError
  then show ?thesis by (simp add: sanitizedError_def J_def is_space_def)
qed


text \<open>
  Claim C1 (every fault is returned with \<^verbatim>\<open>isError\<close> true) fails where the draft
  service throws. The request for a draft is answered with status 401, \<^verbatim>\<open>createDraft\<close>
  throws, and the \<^verbatim>\<open>catch\<close> inside the case of \<^verbatim>\<open>create_typefully_draft\<close> returns the
  error text in a result that has no \<^verbatim>\<open>isError\<close> field, where the \<^verbatim>\<open>catch\<close> of the
  handler sets the field to true.
\<close>

theorem draft_fault_without_isError:
  "callTool rejecting_world example_server (J ''create_typefully_draft'')
      (JObj [(J ''content'', JStr (J ''hello''))]) =
     ([CreateDraft (J ''hello'')
         \<lparr>threadify = None, scheduleDate = None, share = None, autoRetweetEnabled = None,
          autoPlugEnabled = None\<rparr>],
      Inr \<lparr>content =
             [TextBlock ([0x274C] @ J '' **Error:** Typefully API error: 401 - Unauthorized'')],
           isError = None\<rparr>)"
  by (simp add: eval_defs show_nat.simps)

text \<open>
  Claim C2 (the message of every handler fault is sanitized) fails in the same place. The
  draft service throws an error whose message has two lines; the text of the result for
  \<^verbatim>\<open>create_typefully_draft\<close> with content \<^verbatim>\<open>hello\<close> holds the message as it is, line
  feed included.
\<close>

theorem draft_fault_text_keeps_newline:
  "snd (callTool newline_world example_server (J ''create_typefully_draft'')
      (JObj [(J ''content'', JStr (J ''hello''))])) =
     Inr \<lparr>content =
            [TextBlock ([0x274C] @ J '' **Error:** socket hang up'' @ [0xA] @ J ''retry later'')],
          isError = None\<rparr> \<and>
   js_includes ([0x274C] @ J '' **Error:** socket hang up'' @ [0xA] @ J ''retry later'') [0xA]"
  by (simp add: eval_defs)

section \<open>The handler never throws\<close>

text \<open>
  Claim C3. For every tool name, registered or not, and every arguments value, the
  handler of a tool call returns a tool result: no exception leaves it, whatever the
  schemas, the services and the environment do.
\<close>

theorem callTool_never_raises: "\<exists>r. snd (callTool w srv name args) = Inr r"
  by (simp add: callTool_eq)

theorem callTool_never_raises_witness:
  "\<exists>r. snd (callTool rejecting_world example_server (J ''create_typefully_draft'')
           (JObj [(J ''content'', JStr (J ''hello''))])) = Inr r"
  using callTool_never_raises
    [of rejecting_world example_server "J ''create_typefully_draft''"
        "JObj [(J ''content'', JStr (J ''hello''))]"]
  by simp

section \<open>Exit status\<close>

lemma start_process_status:
  "exit_status (start_process w) =
     (if isl (module_init w) \<or> isl (main w) then Some 1 else None)"
  by (auto simp: exit_status_def start_process_def split: sum.splits)

lemma module_init_fails:
  "isl (module_init w) \<longleftrightarrow>
     isl (fileURLToPath w) \<or> or_else (env w (J ''TYPEFULLY_API_KEY'')) [] = [] \<or>
     isl (new_Server w) \<or> isl (setRequestHandler w ListToolsRequestSchema) \<or>
     isl (setRequestHandler w CallToolRequestSchema)"
  by (auto simp: module_init_def TypefullyService_new_def Let_def split: sum.splits)

lemma main_fails: "isl (main w) \<longleftrightarrow> isl (new_StdioServerTransport w) \<or> isl (connect w)"
  by (auto simp: main_def split: sum.splits)

lemma serve_keeps_status: "exit_status (serve st calls) = exit_status st"
proof (induction st calls rule: serve.induct)
  case (1 st)
  then show ?case by simp
next
  case (2 n c cs)
  then show ?case by simp
next
  case (3 srv w name args cs)
  have "snd (callTool w srv name args) =
      Inr (case snd (tool_switch w srv name args) of Inl e \<Rightarrow> error_result e | Inr r \<Rightarrow> r)"
    by (simp add: callTool_eq)
  then show ?case using 3 by simp
qed

text \<open>
  Claim C4 as stated (only a failed transport connection ends the process with a
  non-zero status) is false: with no \<^verbatim>\<open>TYPEFULLY_API_KEY\<close> set, and a transport that
  can be created and would connect, the process exits with status 1.
\<close>

theorem missing_key_exits_nonzero:
  "start_process keyless_world = Exited 1 \<and>
   new_StdioServerTransport keyless_world = Inr () \<and> connect keyless_world = Inr ()"
  by (simp add: start_process_def module_init_def TypefullyService_new_def eval_defs)

text \<open>
  Claim C4, amended. At its start the process exits, with status 1, exactly when a
  statement at the top level of the module throws before \<^verbatim>\<open>main\<close> is called (the path
  of the module file cannot be found, \<^verbatim>\<open>TYPEFULLY_API_KEY\<close> is absent or empty, the
  server cannot be created, or the registration of one of the two request handlers is
  refused) or the transport cannot be created or connected; otherwise it serves. A
  missing \<^verbatim>\<open>SUPADATA_API_KEY\<close> plays no part. Once the process serves, no sequence of
  tool calls changes its exit status, whatever their faults and whatever the protocol
  layer would do with an exception from the handler, since every call returns a result.
\<close>

theorem exit_status_at_start:
  "exit_status (start_process w) =
     (if isl (fileURLToPath w) \<or> or_else (env w (J ''TYPEFULLY_API_KEY'')) [] = [] \<or>
         isl (new_Server w) \<or> isl (setRequestHandler w ListToolsRequestSchema) \<or>
         isl (setRequestHandler w CallToolRequestSchema) \<or>
         isl (new_StdioServerTransport w) \<or> isl (connect w)
      then Some 1 else None) \<and>
   exit_status (serve (start_process w) calls) = exit_status (start_process w) \<and>
   exit_status (serve st calls) = exit_status st \<and>
   (\<exists>r. snd (callTool w srv name args) = Inr r)"
  by (simp add: start_process_status module_init_fails main_fails serve_keeps_status callTool_eq)

theorem exit_status_at_start_witness:
  "exit_status (start_process example_world) = None \<and>
   exit_status (start_process keyless_world) = Some 1 \<and>
   exit_status (start_process refusing_world) = Some 1 \<and>
   exit_status (start_process (example_world\<lparr>connect := Inl NonError\<rparr>)) = Some 1 \<and>
   exit_status
     (serve (start_process example_world)
        [(rejecting_world, J ''create_typefully_draft'', JObj [(J ''content'', JStr (J ''hello''))]),
         (example_world, J ''nonexistent_tool'', JNull),
         (example_world, J ''get_youtube_transcript'', JObj [])]) = None"
  using exit_status_at_start [of example_world
      "[(rejecting_world, J ''create_typefully_draft'', JObj [(J ''content'', JStr (J ''hello''))]),
        (example_world, J ''nonexistent_tool'', JNull),
        (example_world, J ''get_youtube_transcript'', JObj [])]"
      "Exited 0" example_server "[]" JNull]
    exit_status_at_start [of keyless_world "[]" "Exited 0" example_server "[]" JNull]
    exit_status_at_start [of refusing_world "[]" "Exited 0" example_server "[]" JNull]
    exit_status_at_start [of "example_world\<lparr>connect := Inl NonError\<rparr>" "[]" "Exited 0"
      example_server "[]" JNull]
  by (simp add: eval_defs refusing_world_def)

section \<open>Validation before the handler\<close>

text \<open>A rejected arguments value: the error result, and no service call.\<close>

lemma rejected_youtube:
  "isl (YouTubeTranscriptSchema args) \<Longrightarrow>
   \<exists>m. callTool w srv (J ''get_youtube_transcript'') args = ([], Inr (error_result (Error m)))"
  by (auto simp: callTool_def tool_switch_def get_youtube_transcript_case_def zod_parse_def
      isl_def)

lemma rejected_generate:
  "isl (GenerateTweetsSchema args) \<Longrightarrow>
   \<exists>m. callTool w srv (J ''generate_tweets_from_transcript'') args =
     ([], Inr (error_result (Error m)))"
  by (auto simp: callTool_def tool_switch_def generate_tweets_from_transcript_case_def
      zod_parse_def isl_def tool_name_distinct)

lemma rejected_draft:
  "isl (CreateDraftSchema args) \<Longrightarrow>
   \<exists>m. callTool w srv (J ''create_typefully_draft'') args = ([], Inr (error_result (Error m)))"
  by (auto simp: callTool_def tool_switch_def create_typefully_draft_case_def
      zod_parse_def isl_def tool_name_distinct)

lemma z_and_isl [simp]: "isl (z_and f x) \<longleftrightarrow> isl f \<or> isl x"
  by (auto simp: z_and_def split: sum.splits)

lemma z_field_isl [simp]: "isl (z_field fs k p) \<longleftrightarrow> isl (p (get_field fs (J k)))"
  by (auto simp: z_field_def split: sum.splits)

lemma missing_required:
  assumes "k \<in> set (required_fields name)" "map_of fs k = None"
  shows "(name = J ''get_youtube_transcript'' \<and> isl (YouTubeTranscriptSchema (JObj fs))) \<or>
         (name = J ''generate_tweets_from_transcript'' \<and> isl (GenerateTweetsSchema (JObj fs))) \<or>
         (name = J ''create_typefully_draft'' \<and> isl (CreateDraftSchema (JObj fs)))"
  using assms
  by (auto simp: required_fields_def YouTubeTranscriptSchema_def GenerateTweetsSchema_def
      CreateDraftSchema_def get_field_def z_min_length_def z_string_def split: if_splits)

lemma maxTweets_out_of_range:
  assumes "map_of fs (J ''maxTweets'') = Some (JNum n)" "n < 1 \<or> 10 < n"
  shows "isl (GenerateTweetsSchema (JObj fs))"
  using assms
  by (auto simp: GenerateTweetsSchema_def get_field_def z_optional_def z_max_def z_min_def
      z_number_def)

text \<open>
  Claim C5. Each case of the handler parses the arguments with the tool's schema before
  anything else. When the schema rejects them (in particular when a required field is
  missing, or \<^verbatim>\<open>maxTweets\<close> is a number below 1 or above 10) the call returns a result
  with \<^verbatim>\<open>isError\<close> true and has called no service method.
\<close>

theorem validation_fault_before_handler:
  assumes "(name = J ''get_youtube_transcript'' \<and> isl (YouTubeTranscriptSchema args)) \<or>
           (name = J ''generate_tweets_from_transcript'' \<and> isl (GenerateTweetsSchema args)) \<or>
           (name = J ''create_typefully_draft'' \<and> isl (CreateDraftSchema args)) \<or>
           (\<exists>fs k. args = JObj fs \<and> k \<in> set (required_fields name) \<and> map_of fs k = None) \<or>
           (\<exists>fs n. name = J ''generate_tweets_from_transcript'' \<and> args = JObj fs \<and>
              map_of fs (J ''maxTweets'') = Some (JNum n) \<and> (n < 1 \<or> 10 < n))"
  shows "\<exists>r. callTool w srv name args = ([], Inr r) \<and> isError r = Some True"
proof -
  from assms have
    "(name = J ''get_youtube_transcript'' \<and> isl (YouTubeTranscriptSchema args)) \<or>
     (name = J ''generate_tweets_from_transcript'' \<and> isl (GenerateTweetsSchema args)) \<or>
     (name = J ''create_typefully_draft'' \<and> isl (CreateDraftSchema args))"
    using missing_required maxTweets_out_of_range by blast
  then consider
      "name = J ''get_youtube_transcript''" "isl (YouTubeTranscriptSchema args)"
    | "name = J ''generate_tweets_from_transcript''" "isl (GenerateTweetsSchema args)"
    | "name = J ''create_typefully_draft''" "isl (CreateDraftSchema args)"
    by blast
  then show ?thesis
  proof cases
    case 1
    then show ?thesis using rejected_youtube [of args w srv] by auto
  next
    case 2
    then show ?thesis using rejected_generate [of args w srv] by auto
  next
    case 3
    then show ?thesis using rejected_draft [of args w srv] by auto
  qed
qed

theorem validation_fault_before_handler_witness:
  "(\<exists>r. callTool example_world example_server (J ''get_youtube_transcript'') (JObj []) =
          ([], Inr r) \<and> isError r = Some True) \<and>
   (\<exists>r. callTool example_world example_server (J ''generate_tweets_from_transcript'')
          (JObj [(J ''transcript'', JStr (J ''t'')), (J ''prompt'', JStr (J ''p'')),
                 (J ''maxTweets'', JNum 15)]) = ([], Inr r) \<and>
        isError r = Some True)"
proof
  have "J ''videoUrl'' \<in> set (required_fields (J ''get_youtube_transcript''))"
    by (simp add: required_fields_def)
  then show "\<exists>r. callTool example_world example_server (J ''get_youtube_transcript'') (JObj []) =
      ([], Inr r) \<and> isError r = Some True"
    by (intro validation_fault_before_handler) auto
next
  have "map_of [(J ''transcript'', JStr (J ''t'')), (J ''prompt'', JStr (J ''p'')),
                 (J ''maxTweets'', JNum 15)] (J ''maxTweets'') = Some (JNum 15)"
    by (simp add: J_def)
  then show "\<exists>r. callTool example_world example_server (J ''generate_tweets_from_transcript'')
          (JObj [(J ''transcript'', JStr (J ''t'')), (J ''prompt'', JStr (J ''p'')),
                 (J ''maxTweets'', JNum 15)]) = ([], Inr r) \<and> isError r = Some True"
    by (intro validation_fault_before_handler) auto
qed

section \<open>Unknown tools\<close>

lemma replace_control_unchanged:
  "list_all (\<lambda>c. c \<noteq> 0x0D \<and> c \<noteq> 0x0A \<and> c \<noteq> 0x09) s \<Longrightarrow> replace_control s = s"
  by (induction s) (auto simp: replace_control_def)

lemma replace_control_append:
  "replace_control (a @ b) = replace_control a @ replace_control b"
  by (simp add: replace_control_def)

lemma unknown_prefix: "replace_control (J ''Unknown tool: '') = J ''Unknown tool:'' @ [0x20]"
  by (simp add: replace_control_def J_def)

lemma unknown_tool_switch:
  assumes "name \<notin> set tool_names"
  shows "tool_switch w srv name args = ([], Inl (Error (J ''Unknown tool: '' @ name)))"
  using assms by (simp add: tool_switch_def tool_names_def)

text \<open>
  Claim C6, amended. For every name that is none of the three tool names the call
  returns, without calling a service, a result with \<^verbatim>\<open>isError\<close> true and one text
  block: the cross mark and \<^verbatim>\<open>Error:\<close>, then the message \<^verbatim>\<open>Unknown tool: <name>\<close> with
  carriage returns, line feeds and tabs replaced by spaces and then trimmed. That text
  always includes \<^verbatim>\<open>Unknown tool:\<close>; it includes \<^verbatim>\<open>Unknown tool: <name>\<close> as it is when the
  name is not empty, does not end in white space and has none of the three control
  characters.
\<close>

theorem unknown_tool_result:
  assumes "name \<notin> set tool_names"
  shows "callTool w srv name args =
           ([], Inr \<lparr>content =
                      [TextBlock ([0x274C] @ J '' Error: '' @
                                  trim (replace_control (J ''Unknown tool: '' @ name)))],
                    isError = Some True\<rparr>) \<and>
         js_includes (trim (replace_control (J ''Unknown tool: '' @ name))) (J ''Unknown tool:'') \<and>
         (name \<noteq> [] \<and> \<not> is_space (last name) \<and>
          list_all (\<lambda>c. c \<noteq> 0x0D \<and> c \<noteq> 0x0A \<and> c \<noteq> 0x09) name \<longrightarrow>
            trim (replace_control (J ''Unknown tool: '' @ name)) = J ''Unknown tool: '' @ name)"
proof (intro conjI impI)
  show "callTool w srv name args =
           ([], Inr \<lparr>content =
                      [TextBlock ([0x274C] @ J '' Error: '' @
                                  trim (replace_control (J ''Unknown tool: '' @ name)))],
                    isError = Some True\<rparr>)"
    by (simp add: callTool_eq unknown_tool_switch [OF assms] error_result_def sanitizedError_def)
next
  have "\<exists>r. trim (J ''Unknown tool:'' @ ([0x20] @ replace_control name)) = J ''Unknown tool:'' @ r"
    by (rule trim_keeps_prefix) (simp_all add: J_def is_space_def)
  then obtain r where "trim (replace_control (J ''Unknown tool: '' @ name)) = [] @ J ''Unknown tool:'' @ r"
    by (auto simp: replace_control_append unknown_prefix)
  then show "js_includes (trim (replace_control (J ''Unknown tool: '' @ name))) (J ''Unknown tool:'')"
    using js_includes_mid by metis
next
  assume a: "name \<noteq> [] \<and> \<not> is_space (last name) \<and>
          list_all (\<lambda>c. c \<noteq> 0x0D \<and> c \<noteq> 0x0A \<and> c \<noteq> 0x09) name"
  then have "replace_control name = name" by (simp add: replace_control_unchanged)
  then have 1: "replace_control (J ''Unknown tool: '' @ name) = J ''Unknown tool: '' @ name"
    by (simp add: replace_control_append replace_control_def J_def)
  have "trim (J ''Unknown tool: '' @ name) = J ''Unknown tool: '' @ name"
    using a by (intro trim_unchanged) (simp_all add: J_def is_space_def)
  then show "trim (replace_control (J ''Unknown tool: '' @ name)) = J ''Unknown tool: '' @ name"
    by (simp add: 1)
qed

text \<open>
  Claim C6 as stated (the text contains \<^verbatim>\<open>Unknown tool: <name>\<close> for every unregistered
  name) is false for a name with a tab: the tab is a space in the text.
\<close>

theorem unknown_tool_name_with_tab:
  "tab_name \<notin> set tool_names \<and>
   snd (callTool example_world example_server tab_name (JObj [])) =
     Inr \<lparr>content = [TextBlock ([0x274C] @ J '' Error: Unknown tool: my tool'')],
          isError = Some True\<rparr> \<and>
   \<not> js_includes ([0x274C] @ J '' Error: Unknown tool: my tool'') (J ''Unknown tool: '' @ tab_name)"
  by (simp add: tab_name_def tool_names_def eval_defs)

theorem unknown_tool_result_witness:
  "J ''nonexistent_tool'' \<notin> set tool_names \<and>
   callTool example_world example_server (J ''nonexistent_tool'') (JObj []) =
     ([], Inr \<lparr>content = [TextBlock ([0x274C] @ J '' Error: Unknown tool: nonexistent_tool'')],
               isError = Some True\<rparr>)"
proof -
  have n: "J ''nonexistent_tool'' \<notin> set tool_names"
    by (simp add: tool_names_def J_def)
  show ?thesis
    using n unknown_tool_result [OF n, of example_world example_server "JObj []"]
    by (simp add: J_def is_space_def)
qed

section \<open>The transcript tool\<close>

lemma match_shapes_other_start:
  "c \<noteq> 0x79 \<Longrightarrow> match_shapes url_shapes (c # cs) = None"
  by (simp add: url_shapes_def J_def)

lemma search_url_skip: "0x79 \<notin> set pre \<Longrightarrow> search_url (pre @ s) = search_url s"
  by (induction pre) (simp_all add: match_shapes_other_start)

lemma id_run_exact:
  assumes "list_all (\<lambda>c. \<not> id_stop c) vid" "rest = [] \<or> id_stop (hd rest)"
  shows "id_run (vid @ rest) = vid"
proof -
  have "takeWhile (\<lambda>c. \<not> id_stop c) rest = []"
    using assms(2) by (cases rest) auto
  moreover have "\<And>x. x \<in> set vid \<Longrightarrow> \<not> id_stop x"
    using assms(1) by (simp add: list_all_iff)
  ultimately show ?thesis
    by (simp add: id_run_def takeWhile_append2)
qed

lemma match_shapes_at_shape:
  assumes "shape \<in> set url_shapes" "id_run x \<noteq> []"
  shows "match_shapes url_shapes (shape @ x) = Some (id_run x)"
proof -
  consider "shape = J ''youtube.com/watch?v=''" | "shape = J ''youtu.be/''"
    | "shape = J ''youtube.com/embed/''"
    using assms(1) by (auto simp: url_shapes_def)
  then show ?thesis
  proof cases
    case 1
    then show ?thesis using assms(2) by (simp add: url_shapes_def)
  next
    case 2
    have "\<not> starts_with (J ''youtube.com/watch?v='') (J ''youtu.be/'' @ x)"
      by (simp add: J_def)
    then show ?thesis using assms(2) 2 by (simp add: url_shapes_def)
  next
    case 3
    have "\<not> starts_with (J ''youtube.com/watch?v='') (J ''youtube.com/embed/'' @ x)"
      "\<not> starts_with (J ''youtu.be/'') (J ''youtube.com/embed/'' @ x)"
      by (simp_all add: J_def)
    then show ?thesis using assms(2) 3 by (simp add: url_shapes_def)
  qed
qed

lemma search_url_at_shape:
  assumes "shape \<in> set url_shapes" "id_run x \<noteq> []"
  shows "search_url (shape @ x) = Some (id_run x)"
proof -
  have "shape \<noteq> []" using assms(1) by (auto simp: url_shapes_def J_def)
  then obtain c cs where "shape @ x = c # cs" by (cases shape) auto
  then show ?thesis
    using match_shapes_at_shape [OF assms] by (metis option.simps(5) search_url.simps(2))
qed

lemma extract_from_url:
  assumes "0x79 \<notin> set pre" "shape \<in> set url_shapes" "vid \<noteq> []"
    "list_all (\<lambda>c. \<not> id_stop c) vid" "rest = [] \<or> id_stop (hd rest)"
  shows "extractVideoId (pre @ shape @ vid @ rest) = Inr vid"
proof -
  have "id_run (vid @ rest) = vid" using assms(4,5) by (rule id_run_exact)
  then have "search_url (shape @ vid @ rest) = Some vid"
    using search_url_at_shape [OF assms(2), of "vid @ rest"] assms(3) by simp
  then show ?thesis
    by (simp add: extractVideoId_def search_url_skip [OF assms(1)])
qed

lemma starts_with_set: "starts_with p s \<Longrightarrow> set p \<subseteq> set s"
  by (auto simp: starts_with_iff)

lemma no_shape_in_id:
  assumes "list_all is_id_char s"
  shows "match_shapes url_shapes s = None"
proof -
  have dot: "\<not> is_id_char 0x2E" by (simp add: is_id_char_def is_word_def)
  have "\<not> starts_with p s" if "p \<in> set url_shapes" for p
  proof
    assume "starts_with p s"
    then have "set p \<subseteq> set s" by (rule starts_with_set)
    moreover have "0x2E \<in> set p" using that by (auto simp: url_shapes_def J_def)
    ultimately have "is_id_char 0x2E" using assms by (auto simp: list_all_iff)
    then show False using dot by simp
  qed
  then show ?thesis by (simp add: url_shapes_def)
qed

lemma search_url_id: "list_all is_id_char s \<Longrightarrow> search_url s = None"
proof (induction s)
  case Nil
  then show ?case by (simp add: url_shapes_def J_def)
next
  case (Cons c cs)
  then show ?case using no_shape_in_id [of "c # cs"] by simp
qed

lemma extract_direct_id:
  assumes "length vid = 11" "list_all is_id_char vid"
  shows "extractVideoId vid = Inr vid"
  using assms by (simp add: extractVideoId_def search_url_id match_direct_id_def)

lemma js_includes_here [simp]: "js_includes (p @ b) p"
  using js_includes_mid [of "[]" p b] by simp

lemma js_includes_later [simp]: "js_includes s p \<Longrightarrow> js_includes (a @ s) p"
  by (auto simp: js_includes_iff) (metis append.assoc)

lemma parse_videoUrl:
  "url \<noteq> [] \<Longrightarrow>
   zod_parse w YouTubeTranscriptSchema (JObj [(J ''videoUrl'', JStr url)]) = Inr \<lparr>a_videoUrl = url\<rparr>"
  by (cases url)
    (simp_all add: zod_parse_def YouTubeTranscriptSchema_def z_and_def z_field_def
      z_min_length_def z_string_def get_field_def)

lemma extract_example:
  "extractVideoId (J ''https://youtu.be/abc12345678'') = Inr (J ''abc12345678'')"
proof -
  have "extractVideoId (J ''https://'' @ J ''youtu.be/'' @ J ''abc12345678'' @ []) =
      Inr (J ''abc12345678'')"
    by (rule extract_from_url) (simp_all add: J_def url_shapes_def id_stop_def)
  then show ?thesis by (simp add: J_def)
qed

lemma transcript_scenario:
  assumes "http_get_transcript w (J ''abc12345678'') (yt_apiKey (youtubeService srv)) = Response tr"
    and "transcriptToText tr = J ''hello world''"
  shows "\<exists>calls t. callTool w srv (J ''get_youtube_transcript'')
             (JObj [(J ''videoUrl'', JStr (J ''https://youtu.be/abc12345678''))]) =
           (calls, Inr \<lparr>content = [TextBlock t], isError = None\<rparr>) \<and>
         \<not> is_error \<lparr>content = [TextBlock t], isError = None\<rparr> \<and>
         js_includes t (J ''abc12345678'') \<and> js_includes t (J ''hello world'')"
proof -
  have ne: "J ''https://youtu.be/abc12345678'' \<noteq> []" by (simp add: J_def)
  show ?thesis
    by (simp add: callTool_def tool_switch_def get_youtube_transcript_case_def
        parse_videoUrl [OF ne] extract_example getTranscript_def assms is_error_def)
qed

lemma transcript_fault:
  assumes "extractVideoId url = Inl e"
  shows "\<exists>r. snd (callTool w srv (J ''get_youtube_transcript'')
                (JObj [(J ''videoUrl'', JStr url)])) = Inr r \<and> isError r = Some True \<and>
             list_all (\<lambda>c. \<forall>v. c \<noteq> GetTranscript v)
               (fst (callTool w srv (J ''get_youtube_transcript'')
                (JObj [(J ''videoUrl'', JStr url)])))"
proof (cases "url = []")
  case True
  then show ?thesis
    by (simp add: callTool_def tool_switch_def get_youtube_transcript_case_def zod_parse_def
        YouTubeTranscriptSchema_def z_and_def z_field_def z_min_length_def z_string_def
        get_field_def)
next
  case False
  then show ?thesis
    using assms
    by (simp add: callTool_def tool_switch_def get_youtube_transcript_case_def parse_videoUrl)
qed

text \<open>
  Claim C7. \<^verbatim>\<open>extractVideoId\<close> returns the identifier of a URL of each of the three
  shapes (after any prefix without the letter y, and up to the end or the first of
  \<^verbatim>\<open>& \n ? #\<close>) and returns a bare identifier of 11 identifier characters as it is. For
  \<^verbatim>\<open>https://youtu.be/abc12345678\<close>, when the transcript request answers with a transcript
  whose text is \<^verbatim>\<open>hello world\<close>, the call returns a result that is not flagged as an
  error (the success result has no \<^verbatim>\<open>isError\<close> field, which a caller reads as false)
  and whose text includes both the identifier and the transcript text. An input that
  \<^verbatim>\<open>extractVideoId\<close> rejects gives a result with \<^verbatim>\<open>isError\<close> true, and no transcript
  request is made.
\<close>

theorem transcript_tool_accepts:
  "(0x79 \<notin> set pre \<and> shape \<in> set url_shapes \<and> vid \<noteq> [] \<and>
      list_all (\<lambda>c. \<not> id_stop c) vid \<and> (rest = [] \<or> id_stop (hd rest)) \<longrightarrow>
        extractVideoId (pre @ shape @ vid @ rest) = Inr vid) \<and>
   (length vid = 11 \<and> list_all is_id_char vid \<longrightarrow> extractVideoId vid = Inr vid) \<and>
   (http_get_transcript w (J ''abc12345678'') (yt_apiKey (youtubeService srv)) = Response tr \<and>
      transcriptToText tr = J ''hello world'' \<longrightarrow>
        (\<exists>calls t. callTool w srv (J ''get_youtube_transcript'')
             (JObj [(J ''videoUrl'', JStr (J ''https://youtu.be/abc12345678''))]) =
           (calls, Inr \<lparr>content = [TextBlock t], isError = None\<rparr>) \<and>
         \<not> is_error \<lparr>content = [TextBlock t], isError = None\<rparr> \<and>
         js_includes t (J ''abc12345678'') \<and> js_includes t (J ''hello world''))) \<and>
   (extractVideoId url = Inl e \<longrightarrow>
      (\<exists>r. snd (callTool w srv (J ''get_youtube_transcript'')
                (JObj [(J ''videoUrl'', JStr url)])) = Inr r \<and> isError r = Some True \<and>
             list_all (\<lambda>c. \<forall>v. c \<noteq> GetTranscript v)
               (fst (callTool w srv (J ''get_youtube_transcript'')
                (JObj [(J ''videoUrl'', JStr url)])))))"
  using extract_from_url [of pre shape vid rest] extract_direct_id [of vid]
    transcript_scenario [of w srv tr] transcript_fault [of url e w srv]
  by blast

lemma example_text: "transcriptToText example_transcript = J ''hello world''"
  by (simp add: transcriptToText_def example_transcript_def J_def trim_def is_space_def)

theorem transcript_tool_accepts_witness:
  "extractVideoId (J ''https://www.'' @ J ''youtube.com/watch?v='' @ J ''abc12345678'' @ J ''&t=42'') =
     Inr (J ''abc12345678'') \<and>
   extractVideoId (J ''abc12345678'') = Inr (J ''abc12345678'') \<and>
   (\<exists>calls t. callTool example_world example_server (J ''get_youtube_transcript'')
        (JObj [(J ''videoUrl'', JStr (J ''https://youtu.be/abc12345678''))]) =
      (calls, Inr \<lparr>content = [TextBlock t], isError = None\<rparr>) \<and>
    \<not> is_error \<lparr>content = [TextBlock t], isError = None\<rparr> \<and>
    js_includes t (J ''abc12345678'') \<and> js_includes t (J ''hello world'')) \<and>
   (\<exists>r. snd (callTool example_world example_server (J ''get_youtube_transcript'')
            (JObj [(J ''videoUrl'', JStr (J ''not a video''))])) = Inr r \<and> isError r = Some True \<and>
         list_all (\<lambda>c. \<forall>v. c \<noteq> GetTranscript v)
           (fst (callTool example_world example_server (J ''get_youtube_transcript'')
            (JObj [(J ''videoUrl'', JStr (J ''not a video''))]))))"
proof -
  have 1: "0x79 \<notin> set (J ''https://www.'')" "J ''youtube.com/watch?v='' \<in> set url_shapes"
    "J ''abc12345678'' \<noteq> []" "list_all (\<lambda>c. \<not> id_stop c) (J ''abc12345678'')"
    "J ''&t=42'' = [] \<or> id_stop (hd (J ''&t=42''))"
    by (simp_all add: J_def url_shapes_def id_stop_def)
  have 2: "length (J ''abc12345678'') = 11" "list_all is_id_char (J ''abc12345678'')"
    by (simp_all add: J_def is_id_char_def is_word_def)
  have 3: "http_get_transcript example_world (J ''abc12345678'')
      (yt_apiKey (youtubeService example_server)) = Response example_transcript"
    by (simp add: example_world_def)
  have 4: "extractVideoId (J ''not a video'') = Inl (Error (J ''Invalid YouTube URL or video ID''))"
    by (simp add: extractVideoId_def match_direct_id_def url_shapes_def J_def is_id_char_def
        is_word_def)
  show ?thesis
    using 1 2 3 4 example_text
      transcript_tool_accepts [of "J ''https://www.''" "J ''youtube.com/watch?v=''" "J ''abc12345678''" "J ''&t=42''"
          example_world example_server example_transcript "J ''not a video''"
          "Error (J ''Invalid YouTube URL or video ID'')"]
    by blast
qed

section \<open>The tweet context\<close>

lemma collapse_chars: "list_all (\<lambda>c. c = 0x20 \<or> \<not> is_space c) (collapse_spaces t)"
  by (induction t rule: collapse_spaces.induct) auto

lemma collapse_nonspace: "filter (\<lambda>c. \<not> is_space c) (collapse_spaces t) = filter (\<lambda>c. \<not> is_space c) t"
proof (induction t rule: collapse_spaces.induct)
  case 1
  then show ?case by simp
next
  case (2 c cs)
  have "filter (\<lambda>c. \<not> is_space c) (dropWhile is_space cs) = filter (\<lambda>c. \<not> is_space c) cs"
    by (induction cs) auto
  then show ?case using 2 by (auto simp: is_space_def)
qed

lemma collapse_unchanged: "list_all (\<lambda>c. \<not> is_space c) a \<Longrightarrow> collapse_spaces a = a"
  by (induction a) auto

lemma dropWhile_all: "list_all P xs \<Longrightarrow> b = [] \<or> \<not> P (hd b) \<Longrightarrow> dropWhile P (xs @ b) = b"
proof (induction xs)
  case Nil
  then show ?case by (cases b) auto
next
  case (Cons x xs)
  then show ?case by simp
qed

lemma collapse_run_start:
  assumes "ws \<noteq> []" "list_all is_space ws" "b = [] \<or> \<not> is_space (hd b)"
  shows "collapse_spaces (ws @ b) = 0x20 # collapse_spaces b"
proof -
  obtain c ws' where ws: "ws = c # ws'" using assms(1) by (cases ws) auto
  then have "is_space c" "list_all is_space ws'" using assms(2) by auto
  then show ?thesis using assms(3) by (simp add: ws dropWhile_all)
qed

lemma collapse_run:
  assumes "ws \<noteq> []" "list_all is_space ws" "b = [] \<or> \<not> is_space (hd b)"
  shows "a = [] \<or> \<not> is_space (last a) \<Longrightarrow>
         collapse_spaces (a @ ws @ b) = collapse_spaces a @ [0x20] @ collapse_spaces b"
proof (induction a rule: collapse_spaces.induct)
  case 1
  then show ?case using collapse_run_start [OF assms] by simp
next
  case (2 c cs)
  show ?case
  proof (cases "is_space c")
    case False
    then have "cs = [] \<or> \<not> is_space (last cs)" using 2(3) by (auto split: if_splits)
    then show ?thesis using 2(2) False by simp
  next
    case True
    then have cs: "cs \<noteq> []" "\<not> is_space (last cs)" using 2(3) by (auto split: if_splits)
    then have ex: "last cs \<in> set cs" by simp
    have d: "dropWhile is_space (cs @ ws @ b) = dropWhile is_space cs @ ws @ b"
      using ex cs(2) by (rule dropWhile_append1)
    have ne: "dropWhile is_space cs \<noteq> []"
      using ex cs(2) by (auto simp: dropWhile_eq_Nil_conv)
    have "last (dropWhile is_space cs) = last cs"
      using ne by (metis last_appendR takeWhile_dropWhile_id)
    then have "dropWhile is_space cs = [] \<or> \<not> is_space (last (dropWhile is_space cs))"
      using cs(2) by simp
    then show ?thesis using 2(1) True d by simp
  qed
qed

lemma clean_chars:
  "list_all (\<lambda>c. is_word c \<or> c = 0x20 \<or> c = 0x2E \<or> c = 0x2C \<or> c = 0x21 \<or> c = 0x3F \<or> c = 0x2D)
     (cleanTranscript t)"
proof -
  have "c \<in> set (cleanTranscript t) \<Longrightarrow>
      is_word c \<or> c = 0x20 \<or> c = 0x2E \<or> c = 0x2C \<or> c = 0x21 \<or> c = 0x3F \<or> c = 0x2D" for c
  proof -
    assume "c \<in> set (cleanTranscript t)"
    then have "c \<in> set (filter kept (collapse_spaces t))"
      using set_trim [of "filter kept (collapse_spaces t)"] by (auto simp: cleanTranscript_def)
    then have "kept c" "c = 0x20 \<or> \<not> is_space c"
      using collapse_chars [of t] by (auto simp: list_all_iff)
    then show ?thesis by (auto simp: kept_def)
  qed
  then show ?thesis by (simp add: list_all_iff)
qed

lemma clean_ascii: "list_all (\<lambda>c. c \<le> 0x7A \<and> c \<noteq> 0x22 \<and> c \<noteq> 0x27 \<and> c \<noteq> 0x3A) (cleanTranscript t)"
proof -
  have "is_word c \<or> c = 0x20 \<or> c = 0x2E \<or> c = 0x2C \<or> c = 0x21 \<or> c = 0x3F \<or> c = 0x2D \<Longrightarrow>
    c \<le> 0x7A \<and> c \<noteq> 0x22 \<and> c \<noteq> 0x27 \<and> c \<noteq> 0x3A" for c :: code_unit
    by (auto simp: is_word_def word_le_nat_alt)
  then show ?thesis using clean_chars [of t] by (auto simp: list_all_iff)
qed

text \<open>
  Claim C10. The context holds the prompt as it was given, and as its transcript the
  given one after three steps: every maximal run of white space replaced by one space,
  every character deleted that is not a word character, white space or one of
  \<^verbatim>\<open>. , ! ? -\<close>, and the result trimmed. So the transcript of the context consists of
  word characters, spaces and those five marks only (no quote, colon or code unit of an
  emoji), and neither starts nor ends with white space. The first step changes white
  space only: the other characters stay, in their order; a text without white space
  stays as it is; a run of white space between two texts becomes one space between
  their images.
\<close>

theorem context_transcript_cleaned:
  "c_prompt (generateTweetContext num t p opts) = p \<and>
   c_transcript (generateTweetContext num t p opts) = trim (filter kept (collapse_spaces t)) \<and>
   list_all (\<lambda>c. is_word c \<or> c = 0x20 \<or> c = 0x2E \<or> c = 0x2C \<or> c = 0x21 \<or> c = 0x3F \<or> c = 0x2D)
     (c_transcript (generateTweetContext num t p opts)) \<and>
   list_all (\<lambda>c. c \<le> 0x7A \<and> c \<noteq> 0x22 \<and> c \<noteq> 0x27 \<and> c \<noteq> 0x3A)
     (c_transcript (generateTweetContext num t p opts)) \<and>
   (c_transcript (generateTweetContext num t p opts) = [] \<or>
    (\<not> is_space (hd (c_transcript (generateTweetContext num t p opts))) \<and>
     \<not> is_space (last (c_transcript (generateTweetContext num t p opts))))) \<and>
   list_all (\<lambda>c. c = 0x20 \<or> \<not> is_space c) (collapse_spaces t) \<and>
   filter (\<lambda>c. \<not> is_space c) (collapse_spaces t) = filter (\<lambda>c. \<not> is_space c) t \<and>
   (list_all (\<lambda>c. \<not> is_space c) t \<longrightarrow> collapse_spaces t = t) \<and>
   (ws \<noteq> [] \<and> list_all is_space ws \<and> (a = [] \<or> \<not> is_space (last a)) \<and>
    (b = [] \<or> \<not> is_space (hd b)) \<longrightarrow>
      collapse_spaces (a @ ws @ b) = collapse_spaces a @ [0x20] @ collapse_spaces b)"
proof -
  have ct: "c_transcript (generateTweetContext num t p opts) = cleanTranscript t"
    by (simp add: generateTweetContext_def Let_def)
  have "c_prompt (generateTweetContext num t p opts) = p"
    by (simp add: generateTweetContext_def Let_def)
  moreover have "cleanTranscript t = trim (filter kept (collapse_spaces t))"
    by (simp add: cleanTranscript_def)
  moreover have "cleanTranscript t = [] \<or>
      (\<not> is_space (hd (cleanTranscript t)) \<and> \<not> is_space (last (cleanTranscript t)))"
    unfolding cleanTranscript_def by (rule trim_trimmed)
  ultimately show ?thesis
    unfolding ct
    using clean_chars [of t] clean_ascii [of t] collapse_chars [of t] collapse_unchanged [of t]
      collapse_nonspace [of t] collapse_run [of ws b a]
    by blast
qed

theorem context_transcript_cleaned_witness:
  "c_prompt (generateTweetContext (\<lambda>r. []) (J ''  Hi:  there'' @ [0x09, 0x22, 0xD83D, 0xDE00] @ J ''ok!  '')
      (J ''Say: hi!'') \<lparr>o_maxTweets = None, o_includeCallToAction = None, o_style = None,
        o_includeEmojis = None, o_format = None\<rparr>) = J ''Say: hi!'' \<and>
   c_transcript (generateTweetContext (\<lambda>r. []) (J ''  Hi:  there'' @ [0x09, 0x22, 0xD83D, 0xDE00] @ J ''ok!  '')
      (J ''Say: hi!'') \<lparr>o_maxTweets = None, o_includeCallToAction = None, o_style = None,
        o_includeEmojis = None, o_format = None\<rparr>) = J ''Hi there ok!'' \<and>
   collapse_spaces (J ''a:'' @ [0x09, 0x0A, 0x20] @ J ''b'') = J ''a: b''"
proof -
  have 1: "[0x09, 0x0A, 0x20] \<noteq> ([] :: jstring)" "list_all is_space [0x09, 0x0A, 0x20]"
    "J ''a:'' = [] \<or> \<not> is_space (last (J ''a:''))" "J ''b'' = [] \<or> \<not> is_space (hd (J ''b''))"
    "list_all (\<lambda>c. \<not> is_space c) (J ''a:'')" "list_all (\<lambda>c. \<not> is_space c) (J ''b'')"
    by (simp_all add: J_def is_space_def)
  have 2: "trim (filter kept (collapse_spaces
      (J ''  Hi:  there'' @ [0x09, 0x22, 0xD83D, 0xDE00] @ J ''ok!  ''))) = J ''Hi there ok!''"
    by (simp add: J_def trim_def is_space_def kept_def is_word_def)
  show ?thesis
    using 1 2
      context_transcript_cleaned [of "\<lambda>r. []" "J ''  Hi:  there'' @ [0x09, 0x22, 0xD83D, 0xDE00] @ J ''ok!  ''"
        "J ''Say: hi!''" "\<lparr>o_maxTweets = None, o_includeCallToAction = None, o_style = None,
        o_includeEmojis = None, o_format = None\<rparr>" "[0x09, 0x0A, 0x20]" "J ''a:''" "J ''b''"]
      context_transcript_cleaned [of "\<lambda>r. []" "J ''a:''" "[]" "\<lparr>o_maxTweets = None, o_includeCallToAction = None, o_style = None,
        o_includeEmojis = None, o_format = None\<rparr>" "[0x20]" "[]" "[]"]
      context_transcript_cleaned [of "\<lambda>r. []" "J ''b''" "[]" "\<lparr>o_maxTweets = None, o_includeCallToAction = None, o_style = None,
        o_includeEmojis = None, o_format = None\<rparr>" "[0x20]" "[]" "[]"]
    by (simp add: J_def)
qed

text \<open>
  Claim C8. \<^verbatim>\<open>generateTweetContext\<close> is a total function of its arguments (and of the
  printing of numbers), with no access to the environment. The context it returns holds
  the style and the format (or their defaults \<^verbatim>\<open>engaging\<close> and \<^verbatim>\<open>thread\<close>), the system
  prompt and the instructions made from them, and the effective maximum: 1 when the
  format is \<^verbatim>\<open>single\<close>, otherwise the given maximum or 5; a given maximum between 1 and
  10 gives an effective one between 1 and 10. In the handler, arguments that the schema
  accepts always give a result that is no error, after one call of
  \<^verbatim>\<open>generateTweetContext\<close>, and the outcome does not depend on the process environment,
  the HTTP requests, the transport or the services.
\<close>

theorem generateTweetContext_total:
  "c_style (generateTweetContext num t p opts) = default_to engaging (o_style opts) \<and>
   c_format (generateTweetContext num t p opts) = default_to thread (o_format opts) \<and>
   c_maxTweets (generateTweetContext num t p opts) =
     Some (if o_format opts = Some single then 1 else default_to 5 (o_maxTweets opts)) \<and>
   (c_systemPrompt (generateTweetContext num t p opts),
    c_instructions (generateTweetContext num t p opts)) =
     generatePromptAndInstructions num (default_to thread (o_format opts))
       (default_to engaging (o_style opts)) (default_to 5 (o_maxTweets opts)) p
       (default_to True (o_includeEmojis opts)) (default_to True (o_includeCallToAction opts)) \<and>
   c_maxTweets (generateTweetContext num t p (opts\<lparr>o_format := Some single\<rparr>)) = Some 1 \<and>
   ((\<exists>m. o_maxTweets opts = Some m \<and> 1 \<le> m \<and> m \<le> 10) \<longrightarrow>
      (\<exists>m. c_maxTweets (generateTweetContext num t p opts) = Some m \<and> 1 \<le> m \<and> m \<le> 10)) \<and>
   (GenerateTweetsSchema args = Inr a \<longrightarrow>
      (\<exists>text. callTool w srv (J ''generate_tweets_from_transcript'') args =
         ([GenerateTweetContext (a_transcript a) (a_prompt a)
             \<lparr>o_maxTweets = a_maxTweets a, o_includeCallToAction = Some True,
              o_style = a_style a, o_includeEmojis = Some True, o_format = a_format a\<rparr>],
          Inr \<lparr>content = [TextBlock text], isError = None\<rparr>))) \<and>
   callTool (w\<lparr>env := e, http_get_transcript := g, http_post_draft := h, connect := c\<rparr>) srv'
       (J ''generate_tweets_from_transcript'') args =
     callTool w srv (J ''generate_tweets_from_transcript'') args"
proof (intro conjI impI)
  show "(c_systemPrompt (generateTweetContext num t p opts),
    c_instructions (generateTweetContext num t p opts)) =
     generatePromptAndInstructions num (default_to thread (o_format opts))
       (default_to engaging (o_style opts)) (default_to 5 (o_maxTweets opts)) p
       (default_to True (o_includeEmojis opts)) (default_to True (o_includeCallToAction opts))"
    by (simp add: generateTweetContext_def Let_def)
next
  show "c_maxTweets (generateTweetContext num t p opts) =
     Some (if o_format opts = Some single then 1 else default_to 5 (o_maxTweets opts))"
    by (cases "o_format opts") (simp_all add: generateTweetContext_def Let_def default_to_def)
  then show "\<exists>m. c_maxTweets (generateTweetContext num t p opts) = Some m \<and> 1 \<le> m \<and> m \<le> 10"
    if "\<exists>m. o_maxTweets opts = Some m \<and> 1 \<le> m \<and> m \<le> 10"
    using that by (auto simp: default_to_def)
next
  show "\<exists>text. callTool w srv (J ''generate_tweets_from_transcript'') args =
         ([GenerateTweetContext (a_transcript a) (a_prompt a)
             \<lparr>o_maxTweets = a_maxTweets a, o_includeCallToAction = Some True,
              o_style = a_style a, o_includeEmojis = Some True, o_format = a_format a\<rparr>],
          Inr \<lparr>content = [TextBlock text], isError = None\<rparr>)"
    if "GenerateTweetsSchema args = Inr a"
    using that
    by (simp add: callTool_def tool_switch_def generate_tweets_from_transcript_case_def
        zod_parse_def tool_name_distinct Let_def)
next
  show "callTool (w\<lparr>env := e, http_get_transcript := g, http_post_draft := h, connect := c\<rparr>) srv'
       (J ''generate_tweets_from_transcript'') args =
     callTool w srv (J ''generate_tweets_from_transcript'') args"
    by (cases "GenerateTweetsSchema args")
      (simp_all add: callTool_def tool_switch_def generate_tweets_from_transcript_case_def
        zod_parse_def tool_name_distinct Let_def split: option.splits)
qed (simp_all add: generateTweetContext_def Let_def default_to_def)

theorem generateTweetContext_total_witness:
  "c_maxTweets (generateTweetContext (\<lambda>r. J ''7'') (J ''some transcript'') (J ''be brief'')
      \<lparr>o_maxTweets = Some 7, o_includeCallToAction = None, o_style = Some professional,
       o_includeEmojis = None, o_format = Some single\<rparr>) = Some 1 \<and>
   c_maxTweets (generateTweetContext (\<lambda>r. J ''7'') (J ''some transcript'') (J ''be brief'')
      \<lparr>o_maxTweets = Some 7, o_includeCallToAction = None, o_style = Some professional,
       o_includeEmojis = None, o_format = None\<rparr>) = Some 7 \<and>
   c_style (generateTweetContext (\<lambda>r. J ''7'') (J ''some transcript'') (J ''be brief'')
      \<lparr>o_maxTweets = Some 7, o_includeCallToAction = None, o_style = Some professional,
       o_includeEmojis = None, o_format = Some single\<rparr>) = professional \<and>
   (\<exists>text. callTool example_world example_server (J ''generate_tweets_from_transcript'')
       (JObj [(J ''transcript'', JStr (J ''t'')), (J ''prompt'', JStr (J ''p'')),
              (J ''format'', JStr (J ''single''))]) =
     ([GenerateTweetContext (J ''t'') (J ''p'')
         \<lparr>o_maxTweets = None, o_includeCallToAction = Some True, o_style = None,
          o_includeEmojis = Some True, o_format = Some single\<rparr>],
      Inr \<lparr>content = [TextBlock text], isError = None\<rparr>))"
proof -
  have 1: "GenerateTweetsSchema (JObj [(J ''transcript'', JStr (J ''t'')), (J ''prompt'', JStr (J ''p'')),
              (J ''format'', JStr (J ''single''))]) =
      Inr \<lparr>a_transcript = J ''t'', a_prompt = J ''p'', a_maxTweets = None, a_style = None,
           a_format = Some single\<rparr>"
    by (simp add: GenerateTweetsSchema_def z_and_def z_field_def z_string_def z_optional_def
        z_number_def z_min_def z_max_def z_min_length_def z_enum_def get_field_def J_def
        style_values_def format_values_def)
  show ?thesis
    using 1
      generateTweetContext_total [of "\<lambda>r. J ''7''" "J ''some transcript''" "J ''be brief''"
        "\<lparr>o_maxTweets = Some 7, o_includeCallToAction = None, o_style = Some professional,
          o_includeEmojis = None, o_format = Some single\<rparr>"
        "JObj [(J ''transcript'', JStr (J ''t'')), (J ''prompt'', JStr (J ''p'')),
              (J ''format'', JStr (J ''single''))]"
        "\<lparr>a_transcript = J ''t'', a_prompt = J ''p'', a_maxTweets = None, a_style = None,
           a_format = Some single\<rparr>" example_world example_server]
      generateTweetContext_total [of "\<lambda>r. J ''7''" "J ''some transcript''" "J ''be brief''"
        "\<lparr>o_maxTweets = Some 7, o_includeCallToAction = None, o_style = Some professional,
          o_includeEmojis = None, o_format = None\<rparr>" JNull]
    by (simp add: default_to_def)
qed

section \<open>Extra argument fields\<close>

lemma map_of_extra:
  assumes "k \<notin> fst ` set extra"
  shows "map_of (fs @ extra) k = map_of fs k"
proof -
  have "map_of extra k = None" using assms by (simp add: map_of_eq_None_iff)
  then show ?thesis by (simp add: map_add_def split: option.splits)
qed

lemma youtube_schema_agree:
  "map_of fs' (J ''videoUrl'') = map_of fs (J ''videoUrl'') \<Longrightarrow>
   YouTubeTranscriptSchema (JObj fs') = YouTubeTranscriptSchema (JObj fs)"
  by (simp add: YouTubeTranscriptSchema_def z_field_def get_field_def)

lemma generate_schema_agree:
  "list_all (\<lambda>k. map_of fs' k = map_of fs k)
     [J ''transcript'', J ''prompt'', J ''maxTweets'', J ''style'', J ''format''] \<Longrightarrow>
   GenerateTweetsSchema (JObj fs') = GenerateTweetsSchema (JObj fs)"
  by (simp add: GenerateTweetsSchema_def z_field_def get_field_def)

lemma draft_schema_agree:
  "list_all (\<lambda>k. map_of fs' k = map_of fs k)
     [J ''content'', J ''threadify'', J ''scheduleDate'', J ''share''] \<Longrightarrow>
   CreateDraftSchema (JObj fs') = CreateDraftSchema (JObj fs)"
  by (simp add: CreateDraftSchema_def z_field_def get_field_def)

lemma agree_callTool:
  assumes "list_all (\<lambda>k. map_of fs' k = map_of fs k) (declared_fields name)"
  shows "callTool w srv name (JObj fs') = callTool w srv name (JObj fs)"
proof -
  consider "name = J ''get_youtube_transcript''" | "name = J ''generate_tweets_from_transcript''"
    | "name = J ''create_typefully_draft''" | "name \<notin> set tool_names"
    by (auto simp: tool_names_def)
  then show ?thesis
  proof cases
    case 1
    then have "YouTubeTranscriptSchema (JObj fs') = YouTubeTranscriptSchema (JObj fs)"
      using assms by (intro youtube_schema_agree) (simp add: declared_fields_def)
    then show ?thesis
      by (simp add: 1 callTool_def tool_switch_def get_youtube_transcript_case_def zod_parse_def)
  next
    case 2
    then have "GenerateTweetsSchema (JObj fs') = GenerateTweetsSchema (JObj fs)"
      using assms by (intro generate_schema_agree) (simp add: declared_fields_def tool_name_distinct)
    then show ?thesis
      by (simp add: 2 callTool_def tool_switch_def generate_tweets_from_transcript_case_def
          zod_parse_def tool_name_distinct)
  next
    case 3
    then have "CreateDraftSchema (JObj fs') = CreateDraftSchema (JObj fs)"
      using assms by (intro draft_schema_agree) (simp add: declared_fields_def tool_name_distinct)
    then show ?thesis
      by (simp add: 3 callTool_def tool_switch_def create_typefully_draft_case_def
          zod_parse_def tool_name_distinct)
  next
    case 4
    then show ?thesis by (simp add: callTool_eq unknown_tool_switch)
  qed
qed

text \<open>
  Claim C9. The schemas read the declared fields of the arguments only. Two argument
  objects that agree on the declared fields of a tool give the same call: the same
  validation outcome, the same service calls with the same arguments, the same result.
  In particular fields added under keys that the tool does not declare change neither
  the outcome of any of the three schemas nor the call.
\<close>

theorem extra_fields_ignored:
  "(list_all (\<lambda>k. map_of fs' k = map_of fs k) (declared_fields name) \<longrightarrow>
      callTool w srv name (JObj fs') = callTool w srv name (JObj fs)) \<and>
   (list_all (\<lambda>k. k \<notin> fst ` set extra) (declared_fields name) \<longrightarrow>
      callTool w srv name (JObj (fs @ extra)) = callTool w srv name (JObj fs)) \<and>
   (list_all (\<lambda>k. k \<notin> fst ` set extra) (declared_fields (J ''get_youtube_transcript'')) \<longrightarrow>
      YouTubeTranscriptSchema (JObj (fs @ extra)) = YouTubeTranscriptSchema (JObj fs)) \<and>
   (list_all (\<lambda>k. k \<notin> fst ` set extra) (declared_fields (J ''generate_tweets_from_transcript'')) \<longrightarrow>
      GenerateTweetsSchema (JObj (fs @ extra)) = GenerateTweetsSchema (JObj fs)) \<and>
   (list_all (\<lambda>k. k \<notin> fst ` set extra) (declared_fields (J ''create_typefully_draft'')) \<longrightarrow>
      CreateDraftSchema (JObj (fs @ extra)) = CreateDraftSchema (JObj fs))"
proof -
  have ex: "list_all (\<lambda>k. map_of (fs @ extra) k = map_of fs k) ks"
    if "list_all (\<lambda>k. k \<notin> fst ` set extra) ks" for ks
    using that by (simp add: list_all_iff map_of_extra del: map_of_append)
  have "YouTubeTranscriptSchema (JObj (fs @ extra)) = YouTubeTranscriptSchema (JObj fs)"
    if "list_all (\<lambda>k. k \<notin> fst ` set extra) (declared_fields (J ''get_youtube_transcript''))"
    using ex [OF that] by (intro youtube_schema_agree) (simp add: declared_fields_def)
  moreover have "GenerateTweetsSchema (JObj (fs @ extra)) = GenerateTweetsSchema (JObj fs)"
    if "list_all (\<lambda>k. k \<notin> fst ` set extra) (declared_fields (J ''generate_tweets_from_transcript''))"
    using ex [OF that]
    by (intro generate_schema_agree) (simp add: declared_fields_def tool_name_distinct)
  moreover have "CreateDraftSchema (JObj (fs @ extra)) = CreateDraftSchema (JObj fs)"
    if "list_all (\<lambda>k. k \<notin> fst ` set extra) (declared_fields (J ''create_typefully_draft''))"
    using ex [OF that]
    by (intro draft_schema_agree) (simp add: declared_fields_def tool_name_distinct)
  ultimately show ?thesis
    using agree_callTool [of fs' fs name w srv] agree_callTool [OF ex, of name w srv]
    by blast
qed

theorem extra_fields_ignored_witness:
  "callTool example_world example_server (J ''create_typefully_draft'')
     (JObj ([(J ''content'', JStr (J ''hello''))] @ [(J ''colour'', JStr (J ''red'')), (J ''n'', JNum 3)])) =
   callTool example_world example_server (J ''create_typefully_draft'')
     (JObj [(J ''content'', JStr (J ''hello''))]) \<and>
   CreateDraftSchema
     (JObj ([(J ''content'', JStr (J ''hello''))] @ [(J ''colour'', JStr (J ''red'')), (J ''n'', JNum 3)])) =
   Inr \<lparr>a_content = J ''hello'', a_threadify = None, a_scheduleDate = None, a_share = None\<rparr>"
proof -
  have 1: "list_all (\<lambda>k. k \<notin> fst ` set [(J ''colour'', JStr (J ''red'')), (J ''n'', JNum 3)])
      (declared_fields (J ''create_typefully_draft''))"
    by (simp add: declared_fields_def J_def)
  have 2: "CreateDraftSchema (JObj [(J ''content'', JStr (J ''hello''))]) =
      Inr \<lparr>a_content = J ''hello'', a_threadify = None, a_scheduleDate = None, a_share = None\<rparr>"
    by (simp add: CreateDraftSchema_def z_and_def z_field_def z_string_def z_optional_def
        z_boolean_def get_field_def J_def)
  show ?thesis
    using 1 2
      extra_fields_ignored [of "[]" "[(J ''content'', JStr (J ''hello''))]" "J ''create_typefully_draft''"
        example_world example_server "[(J ''colour'', JStr (J ''red'')), (J ''n'', JNum 3)]"]
    by simp
qed

end
